theory Spec2Isabelle
  imports Main "HOL-Library.Word"
begin

section \<open>Values of the Go program\<close>

text \<open>
  The program is one Go file, \<^verbatim>\<open>main.go\<close>.  Go's \<^verbatim>\<open>int\<close> is taken at 64 bits (the
  platforms the analysis engine runs on); \<open>sint\<close> reads it.  A Go \<^verbatim>\<open>string\<close> is a byte
  sequence, here a \<open>char list\<close>.
\<close>

type_synonym go_int = "64 word"

text \<open>
  Go errors.  \<open>ErrorString msg\<close> is a leaf error carrying its message (what
  \<^verbatim>\<open>errors.New\<close>, the operating system or a library hands out); \<open>WrapError msg err\<close> is what
  \<^verbatim>\<open>fmt.Errorf\<close> builds for a format with \<^verbatim>\<open>%w\<close>: the formatted message and the error it
  wraps.
\<close>

datatype error = ErrorString string | WrapError string error

fun Error :: "error \<Rightarrow> string" where
  "Error (ErrorString msg) = msg"
| "Error (WrapError msg err) = msg"

fun Unwrap :: "error \<Rightarrow> error option" where
  "Unwrap (ErrorString msg) = None"
| "Unwrap (WrapError msg err) = Some err"

text \<open>The data model of \<^verbatim>\<open>main.go\<close>, lines 15 to 49, innermost struct first.\<close>

record SarifArtifactLocation =
  Uri :: string

record SarifRegion =
  StartLine :: go_int
  StartColumn :: go_int
  EndLine :: go_int

record SarifPhysicalLocation =
  ArtifactLocation :: SarifArtifactLocation
  Region :: SarifRegion

record SarifLocation =
  PhysicalLocation :: SarifPhysicalLocation

record SarifMessage =
  Text :: string

record SarifResult =
  Message :: SarifMessage
  Locations :: "SarifLocation list"

record SarifRun =
  Results :: "SarifResult list"

record Sarif =
  Runs :: "SarifRun list"

section \<open>Library functions the program calls\<close>

subsection \<open>Formatting: the verb \<^verbatim>\<open>%d\<close> and \<^verbatim>\<open>strings.Repeat\<close>\<close>

function digits :: "nat \<Rightarrow> string" where
  "digits n =
     (if n < 10 then [''0123456789'' ! n]
      else digits (n div 10) @ [''0123456789'' ! (n mod 10)])"
  by pat_completeness auto
termination
  by (relation "measure id") auto

declare digits.simps [simp del]

text \<open>\<^verbatim>\<open>%d\<close> of an \<^verbatim>\<open>int\<close>: the decimal digits, a minus sign before a negative value.\<close>

definition fmt_d :: "go_int \<Rightarrow> string" where
  "fmt_d i = (if sint i < 0 then CHR ''-'' # digits (nat (- sint i)) else digits (nat (sint i)))"

definition maxInt :: int where
  "maxInt = 2 ^ 63 - 1"

text \<open>
  The memory the Go runtime has to give.  \<open>maxAlloc\<close> is the largest size the runtime
  accepts for one allocation (\<open>2 ^ 48\<close> bytes on the 64-bit platforms): a longer slice
  makes \<^verbatim>\<open>make\<close> panic.  \<open>available\<close> is the longest string for which the runtime still
  finds the memory that line 157 asks for (the repeated string, its concatenation with
  the caret, the buffer of the print): beyond it the runtime ends the process with the
  fatal error ``out of memory'', which is not a panic, and no deferred call runs.  Every
  other allocation of the program is of the size of a line or a message and is taken to
  succeed.
\<close>

record memory =
  maxAlloc :: nat
  available :: nat

text \<open>
  How a library call ends: it gives its result, it panics, or the runtime ends the
  process.
\<close>

datatype 'a go_call = Gives 'a | Panicking string | Dying string

text \<open>
  \<^verbatim>\<open>strings.Repeat(s, count)\<close> panics on a negative count and when the length of the
  result overflows \<^verbatim>\<open>int\<close>; then it allocates the result, of \<open>count\<close> times the length
  of \<open>s\<close> bytes: the runtime panics when that is more than it accepts for one
  allocation (the message is that of the current Go releases) and ends the process when
  it has not got the memory; otherwise the result is \<open>count\<close> copies of \<open>s\<close>.
\<close>

definition strings_Repeat :: "memory \<Rightarrow> string \<Rightarrow> go_int \<Rightarrow> string go_call" where
  "strings_Repeat mem s count =
     (if sint count < 0 then Panicking ''strings: negative Repeat count''
      else if int (length s) * sint count > maxInt
        then Panicking ''strings: Repeat output length overflow''
      else if length s * nat (sint count) > maxAlloc mem
        then Panicking ''runtime error: makeslice: len out of range''
      else if length s * nat (sint count) > available mem
        then Dying ''fatal error: runtime: out of memory''
      else Gives (concat (replicate (nat (sint count)) s)))"

subsection \<open>Files and \<^verbatim>\<open>bufio.Scanner\<close> with the default split function\<close>

text \<open>
  What \<^verbatim>\<open>os.Open\<close> and the reads after it give for a path: the open fails with an error,
  or it succeeds and the reads deliver the bytes \<open>content\<close> and then end, with
  \<^verbatim>\<open>io.EOF\<close> (\<open>None\<close>) or with a read error.
\<close>

datatype file_state = OpenFails error | Opened string "error option"

definition LF :: char where
  "LF = CHR 0x0A"

definition CR :: char where
  "CR = CHR 0x0D"

definition dropCR :: "string \<Rightarrow> string" where
  "dropCR data = (if data \<noteq> [] \<and> last data = CR then butlast data else data)"

text \<open>
  \<^verbatim>\<open>bufio.ScanLines(data, atEOF)\<close>: the number of bytes to advance and the token, if
  there is one.  No token and no advance asks the scanner for more data.
\<close>

definition ScanLines :: "string \<Rightarrow> bool \<Rightarrow> nat \<times> string option" where
  "ScanLines data atEOF =
     (if atEOF \<and> data = [] then (0, None)
      else if LF \<in> set data then
        (let i = length (takeWhile (\<lambda>c. c \<noteq> LF) data)
         in (i + 1, Some (dropCR (take i data))))
      else if atEOF then (length data, Some (dropCR data))
      else (0, None))"

definition MaxScanTokenSize :: nat where
  "MaxScanTokenSize = 64 * 1024"

definition ErrTooLong :: error where
  "ErrTooLong = ErrorString ''bufio.Scanner: token too long''"

text \<open>
  One call of \<^verbatim>\<open>scanner.Scan()\<close> on the bytes not yet consumed.  The scanner's buffer
  grows to \<open>MaxScanTokenSize\<close> bytes and no further, and it starts at the first
  unconsumed byte whenever it is full; so the split function sees at most that many
  bytes, and it is told of the end of the input only when the rest of the input is
  shorter than the buffer.  \<open>Token t rest\<close>: Scan returned true, \<^verbatim>\<open>Text()\<close> is \<open>t\<close>, \<open>rest\<close>
  is left.  \<open>Stop e\<close>: Scan returned false and \<^verbatim>\<open>Err()\<close> is \<open>e\<close> (\<^verbatim>\<open>io.EOF\<close> is not an
  error: \<open>None\<close>).
\<close>

datatype scanned = Token string string | Stop "error option"

definition Scan :: "string \<Rightarrow> error option \<Rightarrow> scanned" where
  "Scan input rerr =
     (let buf = take MaxScanTokenSize input;
          atEOF = (length input < MaxScanTokenSize)
      in case ScanLines buf atEOF of
           (advance, Some tok) \<Rightarrow> Token tok (drop advance input)
         | (advance, None) \<Rightarrow> if atEOF then Stop rerr else Stop (Some ErrTooLong))"

section \<open>\<^verbatim>\<open>readSpecificLine\<close> (lines 164 to 186)\<close>

text \<open>
  The effects of the program, in the order they happen: one event per call that
  touches the world outside.
\<close>

datatype event =
    MkdirTemp string string
  | RemoveAll string
  | Exec "string list"
  | ReadFile string
  | Open string
  | Close string
  | Stdout string

text \<open>
  The loop of lines 174 to 179 with what follows it (lines 181 to 185): \<open>input\<close> is
  what the scanner has not consumed yet.
\<close>

function scan_loop :: "string \<Rightarrow> error option \<Rightarrow> go_int \<Rightarrow> go_int \<Rightarrow> string \<times> error option" where
  "scan_loop input rerr currentLine targetLine =
     (case Scan input rerr of
        Token tok rest \<Rightarrow>
          if currentLine = targetLine then (tok, None)
          else scan_loop rest rerr (currentLine + 1) targetLine
      | Stop (Some err) \<Rightarrow> ('''', Some err)
      | Stop None \<Rightarrow>
          ('''', Some (ErrorString (''file has less than '' @ fmt_d targetLine @ '' lines''))))"
  by pat_completeness auto
termination
proof (relation "measure (\<lambda>(input, rerr, currentLine, targetLine). length input)")
  fix input :: string and rerr :: "error option" and currentLine targetLine :: go_int
    and tok rest :: string
  assume scan: "Scan input rerr = Token tok rest"
  let ?buf = "take MaxScanTokenSize input"
  let ?eof = "length input < MaxScanTokenSize"
  obtain adv where sl: "ScanLines ?buf ?eof = (adv, Some tok)" and rest: "rest = drop adv input"
    using scan by (auto simp: Scan_def Let_def split: prod.splits option.splits if_splits)
  have nonempty: "input \<noteq> []"
    using sl by (auto simp: ScanLines_def Let_def split: if_splits)
  have "0 < adv"
    using sl nonempty by (auto simp: ScanLines_def Let_def split: if_splits)
  then have "length rest < length input"
    using rest nonempty by simp
  then show "((rest, rerr, currentLine + 1, targetLine), (input, rerr, currentLine, targetLine))
      \<in> measure (\<lambda>(input, rerr, currentLine, targetLine). length input)"
    by simp
qed simp

declare scan_loop.simps [simp del]

text \<open>
  The files the program can open, by path.  A path that is not listed does not exist:
  \<^verbatim>\<open>os.Open\<close> fails on it.
\<close>

type_synonym filesystem = "(string \<times> file_state) list"

definition os_Open :: "filesystem \<Rightarrow> string \<Rightarrow> file_state" where
  "os_Open fs name =
     (case map_of fs name of
        Some f \<Rightarrow> f
      | None \<Rightarrow> OpenFails (ErrorString (''open '' @ name @ '': no such file or directory'')))"

text \<open>
  Go's pair \<^verbatim>\<open>(string, error)\<close> is kept as a pair, \<open>None\<close> for a nil error, and the
  events are the open and the deferred close.
\<close>

definition readSpecificLine ::
  "filesystem \<Rightarrow> string \<Rightarrow> go_int \<Rightarrow> (string \<times> error option) \<times> event list" where
  "readSpecificLine fs filePath targetLine =
     (case os_Open fs filePath of
        OpenFails err \<Rightarrow> (('''', Some err), [Open filePath])
      | Opened content rerr \<Rightarrow>
          (scan_loop content rerr 1 targetLine, [Open filePath, Close filePath]))"

section \<open>\<^verbatim>\<open>printFindings\<close> (lines 140 to 162)\<close>

text \<open>
  How a piece of a function body ends: it falls through to the next statement, it
  returns an error, it panics, or the runtime ends the process with a fatal error.  A
  \<^verbatim>\<open>for ... range\<close> loop runs its body on each element in order and stops at the first
  one that does not fall through.
\<close>

datatype control = Next | Return error | Panic string | Fatal string

fun range_loop :: "('a \<Rightarrow> control \<times> event list) \<Rightarrow> 'a list \<Rightarrow> control \<times> event list" where
  "range_loop body [] = (Next, [])"
| "range_loop body (x # xs) =
     (case body x of
        (Next, t) \<Rightarrow> (case range_loop body xs of (c, t') \<Rightarrow> (c, t @ t'))
      | (c, t) \<Rightarrow> (c, t))"

text \<open>
  The body of the innermost loop, lines 146 to 157.  \<open>red\<close> and \<open>yellow\<close> are the
  \<^verbatim>\<open>Sprint\<close> methods of the two colors of the color library, which is not part of
  the program: they wrap a string in the terminal's escape sequences, or leave it as it
  is when colors are off.  \<^verbatim>\<open>strings.Repeat\<close> runs before \<^verbatim>\<open>yellow.Sprint\<close> and before
  the third print.
\<close>

definition location_body ::
  "memory \<Rightarrow> (string \<Rightarrow> string) \<Rightarrow> (string \<Rightarrow> string) \<Rightarrow> filesystem \<Rightarrow> SarifResult \<Rightarrow>
     SarifLocation \<Rightarrow> control \<times> event list" where
  "location_body mem red yellow fs result location =
     (let uri = Uri (ArtifactLocation (PhysicalLocation location));
          line = StartLine (Region (PhysicalLocation location));
          column = StartColumn (Region (PhysicalLocation location))
      in case readSpecificLine fs uri line of
           ((code, Some err), t) \<Rightarrow>
             (Return (WrapError (''failed to read file: '' @ Error err) err), t)
         | ((code, None), t) \<Rightarrow>
             (let t2 = t @
                    [Stdout (uri @ '':'' @ fmt_d line @ '':'' @ fmt_d column @ '': '' @
                             red (Text (Message result)) @ [LF]),
                     Stdout (''  '' @ fmt_d line @ '': '' @ code @ [LF])]
              in case strings_Repeat mem '' '' column of
                   Panicking msg \<Rightarrow> (Panic msg, t2)
                 | Dying msg \<Rightarrow> (Fatal msg, t2)
                 | Gives spaces \<Rightarrow> (Next, t2 @ [Stdout (spaces @ yellow ''^'' @ [LF])])))"

text \<open>
  How a call ends: it returns (a nil or a non-nil error), it panics, or the process
  has ended in it with a fatal error.
\<close>

datatype outcome = Returned "error option" | Panicked string | FatalError string

text \<open>
  \<^verbatim>\<open>printFindings\<close> takes a pointer: \<open>None\<close> is the nil pointer, which the first loop
  header dereferences.
\<close>

definition printFindings ::
  "memory \<Rightarrow> (string \<Rightarrow> string) \<Rightarrow> (string \<Rightarrow> string) \<Rightarrow> filesystem \<Rightarrow> Sarif option
     \<Rightarrow> outcome \<times> event list" where
  "printFindings mem red yellow fs sarif =
     (case sarif of
        None \<Rightarrow> (Panicked ''runtime error: invalid memory address or nil pointer dereference'', [])
      | Some report \<Rightarrow>
          (case range_loop (\<lambda>run.
                  range_loop (\<lambda>result.
                      range_loop (location_body mem red yellow fs result) (Locations result))
                    (Results run))
                (Runs report) of
             (Next, t) \<Rightarrow> (Returned None, t)
           | (Return err, t) \<Rightarrow> (Returned (Some err), t)
           | (Panic msg, t) \<Rightarrow> (Panicked msg, t)
           | (Fatal msg, t) \<Rightarrow> (FatalError msg, t)))"

section \<open>\<^verbatim>\<open>runAnalysis\<close> (lines 110 to 138) and \<^verbatim>\<open>runMigrationCheck\<close> (lines 70 to 108)\<close>

text \<open>
  What the world outside answers when the program calls it: the temporary directory
  and the random suffix \<^verbatim>\<open>os.MkdirTemp\<close> settles on (or the error it fails with), how a
  subprocess with a given argument list ends (\<^verbatim>\<open>cmd.Run()\<close>: \<open>None\<close> is exit status 0),
  what \<^verbatim>\<open>os.ReadFile\<close> returns for a path, what \<^verbatim>\<open>json.Unmarshal\<close> makes of the bytes,
  \<^verbatim>\<open>path.Join\<close>, the source files, the two colors, the memory of the runtime, and
  whether \<^verbatim>\<open>os.RemoveAll\<close> of a path succeeds (\<open>None\<close>) or fails.
\<close>

record env =
  os_TempDir :: string
  nextRandom :: string
  mkdir_error :: "error option"
  cmd_Run :: "string list \<Rightarrow> error option"
  os_ReadFile :: "string \<Rightarrow> error + string"
  json_Unmarshal :: "string \<Rightarrow> error + Sarif"
  path_Join :: "string \<Rightarrow> string \<Rightarrow> string"
  source_files :: filesystem
  red_Sprint :: "string \<Rightarrow> string"
  yellow_Sprint :: "string \<Rightarrow> string"
  go_memory :: memory
  os_RemoveAll :: "string \<Rightarrow> error option"

definition joinPath :: "string \<Rightarrow> string \<Rightarrow> string" where
  "joinPath dir name =
     (if dir \<noteq> [] \<and> last dir = CHR ''/'' then dir @ name else dir @ ''/'' @ name)"

text \<open>
  \<^verbatim>\<open>os.MkdirTemp(dir, pattern)\<close> for a pattern with no \<^verbatim>\<open>*\<close> and no path separator, as
  the one of line 71: the new directory is \<open>dir\<close> joined with the pattern and a random
  string.
\<close>

definition os_MkdirTemp :: "env \<Rightarrow> string \<Rightarrow> string \<Rightarrow> error + string" where
  "os_MkdirTemp e dir pattern =
     (case mkdir_error e of
        Some err \<Rightarrow> Inl err
      | None \<Rightarrow> Inr (joinPath (if dir = [] then os_TempDir e else dir) pattern @ nextRandom e))"

fun join :: "string list \<Rightarrow> string \<Rightarrow> string" where
  "join [] sep = []"
| "join [x] sep = x"
| "join (x # y # ys) sep = x @ sep @ join (y # ys) sep"

text \<open>\<^verbatim>\<open>fmt.Println\<close> of a slice of strings: the elements between brackets, a space apart.\<close>

definition Println_slice :: "string list \<Rightarrow> string" where
  "Println_slice xs = ''['' @ join xs '' '' @ '']'' @ [LF]"

definition analyze_command :: "string \<Rightarrow> string \<Rightarrow> string list" where
  "analyze_command resultsPath dbPath =
     [''codeql'', ''database'', ''analyze'', ''--format=sarif-latest'',
      ''--output='' @ resultsPath, dbPath, ''skip-mev/cosmos-52-ql'']"

text \<open>Go's pair \<^verbatim>\<open>(*Sarif, error)\<close> is kept as a pair: \<open>None\<close> is nil on either side.\<close>

definition runAnalysis :: "env \<Rightarrow> string \<Rightarrow> (Sarif option \<times> error option) \<times> event list" where
  "runAnalysis e dbPath =
     (let resultsPath = path_Join e dbPath ''results.json'';
          argv = analyze_command resultsPath dbPath
      in case cmd_Run e argv of
           Some err \<Rightarrow>
             ((None, Some (WrapError (''analysis failed: '' @ Error err) err)), [Exec argv])
         | None \<Rightarrow>
             (case os_ReadFile e resultsPath of
                Inl err \<Rightarrow> ((None, Some err), [Exec argv, ReadFile resultsPath])
              | Inr data \<Rightarrow>
                  (case json_Unmarshal e data of
                     Inl err \<Rightarrow> ((None, Some err), [Exec argv, ReadFile resultsPath])
                   | Inr sarif \<Rightarrow> ((Some sarif, None), [Exec argv, ReadFile resultsPath]))))"

text \<open>
  Lines 79 to 94: the argument list of the database creation, and what is printed
  while it is built.
\<close>

definition create_command :: "string \<Rightarrow> string \<Rightarrow> string \<Rightarrow> string list \<times> event list" where
  "create_command dir customBuildCommand dbPath =
     (let command = [''codeql'', ''database'', ''create'', ''--language=go'', ''--source-root'', dir];
          (command, notice) =
            (if customBuildCommand \<noteq> ''''
             then (command @ [''--command'', customBuildCommand],
                   [Stdout (''Using custom build command: '' @ customBuildCommand @ [LF])])
             else (command, []));
          command = command @ [dbPath]
      in (command, notice @ [Stdout (Println_slice command)]))"

text \<open>
  Lines 79 to 107: what runs between the registration of the deferred
  \<^verbatim>\<open>os.RemoveAll\<close> and the function's exit.
\<close>

definition check_body :: "env \<Rightarrow> string \<Rightarrow> string \<Rightarrow> string \<Rightarrow> outcome \<times> event list" where
  "check_body e dir customBuildCommand dbPath =
     (case create_command dir customBuildCommand dbPath of
        (command, printed) \<Rightarrow>
          (case cmd_Run e command of
             Some err \<Rightarrow> (Returned (Some err), printed @ [Exec command])
           | None \<Rightarrow>
               (case runAnalysis e dbPath of
                  ((results, Some err), t) \<Rightarrow>
                    (Returned (Some err), printed @ [Exec command] @ t)
                | ((results, None), t) \<Rightarrow>
                    (case printFindings (go_memory e) (red_Sprint e) (yellow_Sprint e)
                            (source_files e) results of
                       (out, t') \<Rightarrow> (out, printed @ [Exec command] @ t @ t')))))"

text \<open>
  \<^verbatim>\<open>runMigrationCheck\<close>: the deferred call runs when the body has returned and when it
  has panicked, before the function's caller sees either; its result is dropped.  It
  does not run when the process has ended in the body.
\<close>

definition runMigrationCheck :: "env \<Rightarrow> string \<Rightarrow> string \<Rightarrow> outcome \<times> event list" where
  "runMigrationCheck e dir customBuildCommand =
     (case os_MkdirTemp e (os_TempDir e) ''cosmos-migration-db'' of
        Inl err \<Rightarrow> (Returned (Some err), [MkdirTemp (os_TempDir e) ''cosmos-migration-db''])
      | Inr dbPath \<Rightarrow>
          (case check_body e dir customBuildCommand dbPath of
             (FatalError msg, t) \<Rightarrow>
               (FatalError msg, [MkdirTemp (os_TempDir e) ''cosmos-migration-db''] @ t)
           | (out, t) \<Rightarrow>
               (out, [MkdirTemp (os_TempDir e) ''cosmos-migration-db''] @ t @ [RemoveAll dbPath])))"

section \<open>\<^verbatim>\<open>json.Unmarshal\<close> into the data model (line 133)\<close>

text \<open>
  \<^verbatim>\<open>encoding/json\<close> is Go's library.  A well-formed JSON document is taken as parsed: a
  value of the type \<open>json\<close>, the members of an object in the order of the text.
  A number is an integer literal (\<open>JInt\<close>) or a literal with a fraction or an exponent
  (\<open>JFloat\<close>, kept as text).
\<close>

datatype json =
    JNull
  | JBool bool
  | JInt int
  | JFloat string
  | JString string
  | JArray "json list"
  | JObject "(string \<times> json) list"

text \<open>
  What the decoding of a document gives: a value, or an error for a JSON value that
  does not fit the Go type (\<^verbatim>\<open>json.Unmarshal\<close> then returns an
  \<^verbatim>\<open>UnmarshalTypeError\<close>, and line 134 drops the report).  \<open>Repeated\<close> stands for an
  object that names one field of its struct more than once: the library then decodes
  the later value into what the earlier one left, which is not modelled; what is
  proved below holds for these documents without saying what they decode to.
\<close>

datatype 'a decoded = Decoded 'a | TypeError | Repeated


definition both :: "('a \<Rightarrow> 'b \<Rightarrow> 'c) \<Rightarrow> 'a decoded \<Rightarrow> 'b decoded \<Rightarrow> 'c decoded" where
  "both f d1 d2 =
     (case (d1, d2) of
        (Decoded x, Decoded y) \<Rightarrow> Decoded (f x y)
      | (Repeated, _) \<Rightarrow> Repeated
      | (_, Repeated) \<Rightarrow> Repeated
      | _ \<Rightarrow> TypeError)"


text \<open>
  The field of a struct that a key of an object names: the field of that very name,
  or else the first field whose name equals the key when letter case is folded
  (\<open>equalFold\<close>).  None of the structs of the program has a field tag, so the names
  are the Go names.  A key that names no field is skipped with its value.
\<close>

definition field_of :: "(string \<Rightarrow> string \<Rightarrow> bool) \<Rightarrow> string list \<Rightarrow> string \<Rightarrow> string option" where
  "field_of equalFold names key =
     (if key \<in> set names then Some key else find (\<lambda>name. equalFold name key) names)"

definition field_values ::
  "(string \<Rightarrow> string \<Rightarrow> bool) \<Rightarrow> string list \<Rightarrow> (string \<times> json) list \<Rightarrow> string \<Rightarrow> json list" where
  "field_values equalFold names members name =
     map snd (filter (\<lambda>member. field_of equalFold names (fst member) = Some name) members)"

text \<open>
  A field that no key names keeps the zero value it had: the target of line 132 is a
  fresh variable.
\<close>

definition struct_field :: "(json \<Rightarrow> 'a decoded) \<Rightarrow> 'a \<Rightarrow> json list \<Rightarrow> 'a decoded" where
  "struct_field dec zero values =
     (case values of [] \<Rightarrow> Decoded zero | [v] \<Rightarrow> dec v | _ \<Rightarrow> Repeated)"


definition decode_int :: "json \<Rightarrow> go_int decoded" where
  "decode_int j =
     (case j of
        JInt n \<Rightarrow> if - (2 ^ 63) \<le> n \<and> n < 2 ^ 63 then Decoded (word_of_int n) else TypeError
      | JNull \<Rightarrow> Decoded 0
      | _ \<Rightarrow> TypeError)"


definition decode_struct :: "((string \<times> json) list \<Rightarrow> 'a decoded) \<Rightarrow> 'a \<Rightarrow> json \<Rightarrow> 'a decoded" where
  "decode_struct of_members zero j =
     (case j of JObject members \<Rightarrow> of_members members | JNull \<Rightarrow> Decoded zero | _ \<Rightarrow> TypeError)"


definition Region_fields :: "string list" where
  "Region_fields = [''StartLine'', ''StartColumn'', ''EndLine'']"

definition decode_SarifRegion :: "(string \<Rightarrow> string \<Rightarrow> bool) \<Rightarrow> json \<Rightarrow> SarifRegion decoded" where
  "decode_SarifRegion eq =
     decode_struct
       (\<lambda>ms. both (\<lambda>(l, c) e. \<lparr>StartLine = l, StartColumn = c, EndLine = e\<rparr>)
          (both Pair
             (struct_field decode_int 0 (field_values eq Region_fields ms ''StartLine''))
             (struct_field decode_int 0 (field_values eq Region_fields ms ''StartColumn'')))
          (struct_field decode_int 0 (field_values eq Region_fields ms ''EndLine'')))
       \<lparr>StartLine = 0, StartColumn = 0, EndLine = 0\<rparr>"









text \<open>
  Case folding on the letters of ASCII, on which every case folding agrees: the one
  used in the examples.
\<close>

definition to_upper :: "char \<Rightarrow> char" where
  "to_upper c =
     (case map_of (zip ''abcdefghijklmnopqrstuvwxyz'' ''ABCDEFGHIJKLMNOPQRSTUVWXYZ'') c of
        Some u \<Rightarrow> u
      | None \<Rightarrow> c)"

definition equalFold_ascii :: "string \<Rightarrow> string \<Rightarrow> bool" where
  "equalFold_ascii s t \<longleftrightarrow> map to_upper s = map to_upper t"

section \<open>Notions of the specification\<close>

text \<open>
  The lines of a file as the specification counts them: the maximal runs of bytes
  between line feeds, each ended by a line feed, and an unterminated last line when it
  is not empty.  \<open>lines_from cur s\<close> reads \<open>s\<close> with \<open>cur\<close> the line read so far.
\<close>

fun lines_from :: "string \<Rightarrow> string \<Rightarrow> string list" where
  "lines_from cur [] = (if cur = [] then [] else [cur])"
| "lines_from cur (c # cs) =
     (if c = LF then cur # lines_from [] cs else lines_from (cur @ [c]) cs)"

definition file_lines :: "string \<Rightarrow> string list" where
  "file_lines content = lines_from [] content"

text \<open>
  What \<^verbatim>\<open>readSpecificLine\<close> returns when the scan reaches the end of the input with
  every line scanned: the reader's error if it ended with one, the error of line 185
  otherwise.
\<close>

definition not_found :: "error option \<Rightarrow> go_int \<Rightarrow> string \<times> error option" where
  "not_found rerr targetLine =
     ('''', Some (case rerr of Some e \<Rightarrow> e
        | None \<Rightarrow> ErrorString (''file has less than '' @ fmt_d targetLine @ '' lines'')))"

text \<open>
  The (Result, Location) pairs of a report in the order of the specification: run by
  run, result by result, location by location.
\<close>

definition pairs :: "Sarif \<Rightarrow> (SarifResult \<times> SarifLocation) list" where
  "pairs report =
     concat (map (\<lambda>run. concat (map (\<lambda>result. map (Pair result) (Locations result)) (Results run)))
       (Runs report))"

text \<open>
  What the renderer reads of a location, and the line of the source file it gets for
  it (with the error, if the read fails).
\<close>

definition uri_of :: "SarifLocation \<Rightarrow> string" where
  "uri_of location = Uri (ArtifactLocation (PhysicalLocation location))"

definition line_of :: "SarifLocation \<Rightarrow> go_int" where
  "line_of location = StartLine (Region (PhysicalLocation location))"

definition column_of :: "SarifLocation \<Rightarrow> go_int" where
  "column_of location = StartColumn (Region (PhysicalLocation location))"

definition read_line :: "filesystem \<Rightarrow> SarifLocation \<Rightarrow> string \<times> error option" where
  "read_line fs location = fst (readSpecificLine fs (uri_of location) (line_of location))"

text \<open>
  A pair is rendered in full when its source line can be read and its start column is
  a count of spaces that the runtime can allocate: not negative, not above the largest
  allocation and not above the memory available.  \<open>block_lines\<close> are the three lines of
  the pair, without their line feeds; its diagnostic block is the open and close of the
  source file and the three prints, each line with its line feed.
\<close>

definition rendered :: "memory \<Rightarrow> filesystem \<Rightarrow> SarifResult \<times> SarifLocation \<Rightarrow> bool" where
  "rendered mem fs p \<longleftrightarrow>
     snd (read_line fs (snd p)) = None \<and>
     0 \<le> sint (column_of (snd p)) \<and>
     nat (sint (column_of (snd p))) \<le> maxAlloc mem \<and>
     nat (sint (column_of (snd p))) \<le> available mem"

definition block_lines ::
  "(string \<Rightarrow> string) \<Rightarrow> (string \<Rightarrow> string) \<Rightarrow> filesystem \<Rightarrow> SarifResult \<times> SarifLocation \<Rightarrow> string list" where
  "block_lines red yellow fs p =
     [uri_of (snd p) @ '':'' @ fmt_d (line_of (snd p)) @ '':'' @ fmt_d (column_of (snd p)) @ '': '' @
        red (Text (Message (fst p))),
      ''  '' @ fmt_d (line_of (snd p)) @ '': '' @ fst (read_line fs (snd p)),
      replicate (nat (sint (column_of (snd p)))) CHR '' '' @ yellow ''^'']"

definition block ::
  "(string \<Rightarrow> string) \<Rightarrow> (string \<Rightarrow> string) \<Rightarrow> filesystem \<Rightarrow> SarifResult \<times> SarifLocation \<Rightarrow> event list" where
  "block red yellow fs p =
     [Open (uri_of (snd p)), Close (uri_of (snd p))] @
     map (\<lambda>l. Stdout (l @ [LF])) (block_lines red yellow fs p)"

text \<open>
  What a sequence of events writes to the standard output: print by print
  (\<open>printed\<close>), and line by line (\<open>stdout_lines\<close>: the output cut at its line feeds).
  Each print of a block is one line of the output when no piece that the program copies
  into the block holds a line feed: the URI, the colored message text and the colored
  caret.  The numbers and the source line never hold one.
\<close>

definition printed :: "event list \<Rightarrow> string list" where
  "printed t = concat (map (\<lambda>ev. case ev of Stdout s \<Rightarrow> [s] | _ \<Rightarrow> []) t)"

definition stdout_lines :: "event list \<Rightarrow> string list" where
  "stdout_lines t = file_lines (concat (printed t))"

definition one_line_each ::
  "(string \<Rightarrow> string) \<Rightarrow> (string \<Rightarrow> string) \<Rightarrow> SarifResult \<times> SarifLocation \<Rightarrow> bool" where
  "one_line_each red yellow p \<longleftrightarrow>
     LF \<notin> set (uri_of (snd p)) \<and> LF \<notin> set (red (Text (Message (fst p)))) \<and> LF \<notin> set (yellow ''^'')"



section \<open>Example inputs\<close>

text \<open>
  A source file \<^verbatim>\<open>foo.go\<close> of three lines, a runtime that allocates up to \<open>2 ^ 48\<close>
  bytes at once and has \<open>2 ^ 30\<close> bytes to give, a report with three locations in two
  runs (and one result with no location), and an environment in which the database
  creation succeeds, and the analysis, the decoding and the removal of the directory
  end as given.
\<close>

definition finding_at :: "string \<Rightarrow> go_int \<Rightarrow> go_int \<Rightarrow> SarifLocation" where
  "finding_at uri line column =
     \<lparr>PhysicalLocation = \<lparr>ArtifactLocation = \<lparr>Uri = uri\<rparr>,
        Region = \<lparr>StartLine = line, StartColumn = column, EndLine = line\<rparr>\<rparr>\<rparr>"

definition example_files :: filesystem where
  "example_files = [(''foo.go'', Opened (''package main'' @ [LF, LF] @ ''x := 1'' @ [LF]) None)]"

definition example_memory :: memory where
  "example_memory = \<lparr>maxAlloc = 2 ^ 48, available = 2 ^ 30\<rparr>"

definition example_report :: Sarif where
  "example_report =
     \<lparr>Runs =
        [\<lparr>Results =
            [\<lparr>Message = \<lparr>Text = ''unused variable''\<rparr>,
              Locations = [finding_at ''foo.go'' 3 5, finding_at ''foo.go'' 1 0]\<rparr>,
             \<lparr>Message = \<lparr>Text = ''nowhere''\<rparr>, Locations = []\<rparr>]\<rparr>,
         \<lparr>Results =
            [\<lparr>Message = \<lparr>Text = ''shadowed''\<rparr>, Locations = [finding_at ''foo.go'' 3 2]\<rparr>]\<rparr>]\<rparr>"


section \<open>The scanner and the line loop\<close>

lemma takeWhile_take:
  "length (takeWhile P xs) < n \<Longrightarrow> takeWhile P (take n xs) = takeWhile P xs"
proof (induction xs arbitrary: n)
  case Nil
  show ?case by simp
next
  case (Cons x xs)
  then show ?case
    by (cases n) (simp_all split: if_splits)
qed

lemma LF_in_take_iff:
  "LF \<in> set (take n xs) \<longleftrightarrow>
     length (takeWhile (\<lambda>c. c \<noteq> LF) xs) < n \<and> length (takeWhile (\<lambda>c. c \<noteq> LF) xs) < length xs"
proof (induction xs arbitrary: n)
  case Nil
  show ?case by simp
next
  case (Cons x xs)
  show ?case
  proof (cases n)
    case 0
    then show ?thesis by simp
  next
    case (Suc m)
    then show ?thesis
      using Cons.IH [of m] by (cases "x = LF") simp_all
  qed
qed

lemma Scan_eq:
  "Scan input rerr =
     (if input = [] then Stop rerr
      else if MaxScanTokenSize \<le> length (takeWhile (\<lambda>c. c \<noteq> LF) input) then Stop (Some ErrTooLong)
      else Token (dropCR (takeWhile (\<lambda>c. c \<noteq> LF) input))
             (drop (Suc (length (takeWhile (\<lambda>c. c \<noteq> LF) input))) input))"
proof -
  let ?raw = "takeWhile (\<lambda>c. c \<noteq> LF) input"
  let ?buf = "take MaxScanTokenSize input"
  have le: "length ?raw \<le> length input"
    by (rule length_takeWhile_le)
  consider (empty) "input = []"
    | (newline) "input \<noteq> []" "LF \<in> set ?buf"
    | (final) "input \<noteq> []" "LF \<notin> set ?buf" "length input < MaxScanTokenSize"
    | (full) "input \<noteq> []" "LF \<notin> set ?buf" "MaxScanTokenSize \<le> length input"
    by fastforce
  then show ?thesis
  proof cases
    case empty
    then show ?thesis
      by (simp add: Scan_def ScanLines_def MaxScanTokenSize_def)
  next
    case newline
    then have short: "length ?raw < MaxScanTokenSize"
      by (simp add: LF_in_take_iff)
    then have "takeWhile (\<lambda>c. c \<noteq> LF) ?buf = ?raw"
      by (rule takeWhile_take)
    moreover have "take (length ?raw) ?buf = ?raw"
      using short by (simp add: min_def takeWhile_eq_take[symmetric])
    ultimately show ?thesis
      using newline short by (simp add: Scan_def ScanLines_def Let_def)
  next
    case final
    then have noLF: "LF \<notin> set input"
      by simp
    then have raw: "?raw = input"
      by auto
    have "length ?raw = length input" and "dropCR ?raw = dropCR input"
      by (simp_all only: raw)
    then show ?thesis
      using final by (simp add: Scan_def ScanLines_def Let_def del: takeWhile_eq_all_conv)
  next
    case full
    then have "\<not> length ?raw < MaxScanTokenSize"
      using le by (auto simp: LF_in_take_iff)
    then show ?thesis
      using full by (simp add: Scan_def ScanLines_def Let_def)
  qed
qed

lemma lines_from_eq:
  "lines_from cur s =
     (if s = [] then (if cur = [] then [] else [cur])
      else (cur @ takeWhile (\<lambda>c. c \<noteq> LF) s) #
             lines_from [] (drop (Suc (length (takeWhile (\<lambda>c. c \<noteq> LF) s))) s))"
proof (induction s arbitrary: cur)
  case Nil
  show ?case by simp
next
  case (Cons c cs)
  show ?case
  proof (cases "c = LF")
    case True
    then show ?thesis by simp
  next
    case False
    then show ?thesis
      using Cons.IH [of "cur @ [c]"] by (cases cs) auto
  qed
qed

lemma file_lines_Nil: "file_lines [] = []"
  by (simp add: file_lines_def)

lemma file_lines_unfold:
  "input \<noteq> [] \<Longrightarrow>
   file_lines input = takeWhile (\<lambda>c. c \<noteq> LF) input #
     file_lines (drop (Suc (length (takeWhile (\<lambda>c. c \<noteq> LF) input))) input)"
  unfolding file_lines_def by (subst lines_from_eq) simp

lemma of_nat_Suc_neq_0:
  assumes "Suc k < 2 ^ 64"
  shows "(of_nat (Suc k) :: go_int) \<noteq> 0"
proof
  assume "(of_nat (Suc k) :: go_int) = 0"
  then have "(2::nat) ^ LENGTH(64) dvd Suc k"
    by (simp only: word_of_nat_eq_0_iff)
  then have "(2::nat) ^ LENGTH(64) \<le> Suc k"
    by (rule dvd_imp_le) (rule zero_less_Suc)
  then show False
    using assms by simp
qed

lemma scan_loop_found:
  assumes "k < length (file_lines input)"
    and "\<forall>i\<le>k. length (file_lines input ! i) < MaxScanTokenSize"
    and "targetLine = currentLine + of_nat k"
    and "k < 2 ^ 64"
  shows "scan_loop input rerr currentLine targetLine = (dropCR (file_lines input ! k), None)"
  using assms
proof (induction k arbitrary: input currentLine)
  case 0
  then have ne: "input \<noteq> []"
    by (auto simp: file_lines_Nil)
  from 0 have "length (file_lines input ! 0) < MaxScanTokenSize"
    by simp
  then have "Scan input rerr = Token (dropCR (file_lines input ! 0)) (drop (Suc (length (takeWhile (\<lambda>c. c \<noteq> LF) input))) input)"
    using ne by (simp add: Scan_eq file_lines_unfold)
  then show ?case
    using 0 by (simp add: scan_loop.simps [of input])
next
  case (Suc k)
  then have ne: "input \<noteq> []"
    by (auto simp: file_lines_Nil)
  let ?rest = "drop (Suc (length (takeWhile (\<lambda>c. c \<noteq> LF) input))) input"
  have fl: "file_lines input = takeWhile (\<lambda>c. c \<noteq> LF) input # file_lines ?rest"
    using ne by (rule file_lines_unfold)
  from Suc.prems(2) have "length (file_lines input ! 0) < MaxScanTokenSize"
    by blast
  then have scan: "Scan input rerr = Token (dropCR (takeWhile (\<lambda>c. c \<noteq> LF) input)) ?rest"
    using ne fl by (simp add: Scan_eq)
  have neq: "currentLine \<noteq> targetLine"
    using Suc.prems(3,4) of_nat_Suc_neq_0 [of k] by auto
  have "scan_loop ?rest rerr (currentLine + 1) targetLine = (dropCR (file_lines ?rest ! k), None)"
  proof (rule Suc.IH)
    show "k < length (file_lines ?rest)"
      using Suc.prems(1) fl by simp
    show "\<forall>i\<le>k. length (file_lines ?rest ! i) < MaxScanTokenSize"
      using Suc.prems(2) fl by (metis Suc_le_mono nth_Cons_Suc)
    show "targetLine = currentLine + 1 + of_nat k"
      using Suc.prems(3) by simp
    show "k < 2 ^ 64"
      using Suc.prems(4) by simp
  qed
  then show ?case
    using scan neq fl by (simp add: scan_loop.simps [of input])
qed

lemma scan_loop_not_found:
  assumes "\<forall>l\<in>set (file_lines input). length l < MaxScanTokenSize"
    and "\<forall>j<length (file_lines input). currentLine + of_nat j \<noteq> targetLine"
  shows "scan_loop input rerr currentLine targetLine = not_found rerr targetLine"
  using assms
proof (induction input rerr currentLine targetLine rule: scan_loop.induct)
  case (1 input rerr currentLine targetLine)
  show ?case
  proof (cases "input = []")
    case True
    then have "Scan input rerr = Stop rerr"
      by (simp add: Scan_eq)
    then show ?thesis
      by (cases rerr) (simp_all add: scan_loop.simps [of input] not_found_def)
  next
    case False
    let ?rest = "drop (Suc (length (takeWhile (\<lambda>c. c \<noteq> LF) input))) input"
    have fl: "file_lines input = takeWhile (\<lambda>c. c \<noteq> LF) input # file_lines ?rest"
      using False by (rule file_lines_unfold)
    have scan: "Scan input rerr = Token (dropCR (takeWhile (\<lambda>c. c \<noteq> LF) input)) ?rest"
      using False fl "1.prems"(1) by (simp add: Scan_eq)
    have neq: "currentLine \<noteq> targetLine"
      using "1.prems"(2) fl by auto
    have "scan_loop ?rest rerr (currentLine + 1) targetLine = not_found rerr targetLine"
    proof (rule "1.IH" [OF scan neq])
      show "\<forall>l\<in>set (file_lines ?rest). length l < MaxScanTokenSize"
        using "1.prems"(1) fl by simp
      show "\<forall>j<length (file_lines ?rest). currentLine + 1 + of_nat j \<noteq> targetLine"
      proof (intro allI impI)
        fix j assume "j < length (file_lines ?rest)"
        then have "Suc j < length (file_lines input)"
          using fl by simp
        then have "currentLine + of_nat (Suc j) \<noteq> targetLine"
          using "1.prems"(2) by blast
        then show "currentLine + 1 + of_nat j \<noteq> targetLine"
          by (simp add: add.assoc)
      qed
    qed
    then show ?thesis
      using scan neq by (simp add: scan_loop.simps [of input])
  qed
qed

lemma scan_loop_too_long:
  assumes "k < length (file_lines input)"
    and "MaxScanTokenSize \<le> length (file_lines input ! k)"
    and "\<forall>i<k. length (file_lines input ! i) < MaxScanTokenSize"
    and "\<forall>j<k. currentLine + of_nat j \<noteq> targetLine"
  shows "scan_loop input rerr currentLine targetLine = ('''', Some ErrTooLong)"
  using assms
proof (induction k arbitrary: input currentLine)
  case 0
  then have ne: "input \<noteq> []"
    by (auto simp: file_lines_Nil)
  then have "Scan input rerr = Stop (Some ErrTooLong)"
    using 0 by (simp add: Scan_eq file_lines_unfold)
  then show ?case
    by (simp add: scan_loop.simps [of input])
next
  case (Suc k)
  then have ne: "input \<noteq> []"
    by (auto simp: file_lines_Nil)
  let ?rest = "drop (Suc (length (takeWhile (\<lambda>c. c \<noteq> LF) input))) input"
  have fl: "file_lines input = takeWhile (\<lambda>c. c \<noteq> LF) input # file_lines ?rest"
    using ne by (rule file_lines_unfold)
  from Suc.prems(3) have "length (file_lines input ! 0) < MaxScanTokenSize"
    by blast
  then have scan: "Scan input rerr = Token (dropCR (takeWhile (\<lambda>c. c \<noteq> LF) input)) ?rest"
    using ne fl by (simp add: Scan_eq)
  have neq: "currentLine \<noteq> targetLine"
    using Suc.prems(4) by force
  have "scan_loop ?rest rerr (currentLine + 1) targetLine = ('''', Some ErrTooLong)"
  proof (rule Suc.IH)
    show "k < length (file_lines ?rest)"
      using Suc.prems(1) fl by simp
    show "MaxScanTokenSize \<le> length (file_lines ?rest ! k)"
      using Suc.prems(2) fl by simp
    show "\<forall>i<k. length (file_lines ?rest ! i) < MaxScanTokenSize"
      using Suc.prems(3) fl by (metis Suc_less_eq nth_Cons_Suc)
    show "\<forall>j<k. currentLine + 1 + of_nat j \<noteq> targetLine"
    proof (intro allI impI)
      fix j assume "j < k"
      then have "currentLine + of_nat (Suc j) \<noteq> targetLine"
        using Suc.prems(4) [rule_format, of "Suc j"] by simp
      then show "currentLine + 1 + of_nat j \<noteq> targetLine"
        by (simp add: add.assoc)
    qed
  qed
  then show ?case
    using scan neq by (simp add: scan_loop.simps [of input])
qed

lemma sint_of_nat_small:
  assumes "n < 2 ^ 63"
  shows "sint (of_nat n :: go_int) = int n"
proof -
  have "int n < 2 ^ 63"
    using assms by (metis of_nat_less_iff of_nat_numeral of_nat_power)
  then have "signed_take_bit 63 (int n) = int n"
    by (intro signed_take_bit_int_eq_self) simp_all
  then show ?thesis
    by (simp add: signed_of_nat)
qed

lemma sint_bound: "sint (w :: go_int) < 2 ^ 63"
  using sint_lt [of w] by simp

lemma counter_below_target:
  assumes "int (Suc j) < sint (targetLine :: go_int)"
  shows "1 + of_nat j \<noteq> targetLine"
proof
  assume eq: "1 + of_nat j = targetLine"
  have "int (Suc j) < 2 ^ 63"
    using assms sint_bound [of targetLine] by linarith
  then have "Suc j < 2 ^ 63"
    by (metis of_nat_less_iff of_nat_numeral of_nat_power)
  then have "sint (of_nat (Suc j) :: go_int) = int (Suc j)"
    by (rule sint_of_nat_small)
  moreover have "(of_nat (Suc j) :: go_int) = targetLine"
    using eq by simp
  ultimately show False
    using assms by simp
qed

lemma counter_above_target:
  assumes "sint (targetLine :: go_int) \<le> 0" and "Suc j < 2 ^ 63"
  shows "1 + of_nat j \<noteq> targetLine"
proof
  assume eq: "1 + of_nat j = targetLine"
  have "sint (of_nat (Suc j) :: go_int) = int (Suc j)"
    using assms(2) by (rule sint_of_nat_small)
  moreover have "(of_nat (Suc j) :: go_int) = targetLine"
    using eq by simp
  ultimately show False
    using assms(1) by simp
qed

lemma target_as_counter:
  assumes "1 \<le> sint (targetLine :: go_int)"
  shows "targetLine = 1 + of_nat (nat (sint targetLine) - 1)"
proof -
  have "Suc (nat (sint targetLine) - 1) = nat (sint targetLine)"
    using assms by simp
  then have "(of_nat (Suc (nat (sint targetLine) - 1)) :: go_int) = of_nat (nat (sint targetLine))"
    by (rule arg_cong)
  moreover have "(of_nat (nat (sint targetLine)) :: go_int) = targetLine"
    using assms by simp
  ultimately show ?thesis
    by simp
qed

lemma all_take_nth:
  assumes "\<forall>l\<in>set (take k ls). P l" and "i < k" and "i < length ls"
  shows "P (ls ! i)"
proof -
  have "i < length (take k ls)"
    using assms(2,3) by simp
  then have "take k ls ! i \<in> set (take k ls)"
    by (rule nth_mem)
  moreover have "take k ls ! i = ls ! i"
    using assms(2) by simp
  ultimately show ?thesis
    using assms(1) by auto
qed

lemma readSpecificLine_scan:
  "os_Open fs filePath = Opened content rerr \<Longrightarrow>
   fst (readSpecificLine fs filePath targetLine) = scan_loop content rerr 1 targetLine"
  by (simp add: readSpecificLine_def)

lemma scan_loop_line:
  assumes one: "1 \<le> sint targetLine"
    and le: "nat (sint targetLine) \<le> length (file_lines content)"
    and short: "\<forall>l\<in>set (take (nat (sint targetLine)) (file_lines content)). length l < MaxScanTokenSize"
  shows "scan_loop content rerr 1 targetLine =
    (dropCR (file_lines content ! (nat (sint targetLine) - 1)), None)"
proof (rule scan_loop_found)
  let ?ls = "file_lines content"
  let ?n = "nat (sint targetLine)"
  show "?n - 1 < length ?ls"
    using one le by linarith
  show "\<forall>i\<le>?n - 1. length (?ls ! i) < MaxScanTokenSize"
  proof (intro allI impI)
    fix i assume "i \<le> ?n - 1"
    then have "i < ?n" and "i < length ?ls"
      using one le by linarith+
    with short show "length (?ls ! i) < MaxScanTokenSize"
      by (rule all_take_nth)
  qed
  show "targetLine = 1 + of_nat (?n - 1)"
    using one by (rule target_as_counter)
  have "sint targetLine < 2 ^ 63"
    by (rule sint_bound)
  then have "?n < 2 ^ 63"
    using one by (simp add: nat_less_iff)
  then show "?n - 1 < 2 ^ 64"
    by simp
qed

lemma scan_loop_beyond:
  assumes beyond: "int (length (file_lines content)) < sint targetLine"
    and short: "\<forall>l\<in>set (file_lines content). length l < MaxScanTokenSize"
  shows "scan_loop content rerr 1 targetLine = not_found rerr targetLine"
  using short
proof (rule scan_loop_not_found)
  show "\<forall>j<length (file_lines content). 1 + of_nat j \<noteq> targetLine"
  proof (intro allI impI)
    fix j assume "j < length (file_lines content)"
    then have "int (Suc j) < sint targetLine"
      using beyond by linarith
    then show "1 + of_nat j \<noteq> targetLine"
      by (rule counter_below_target)
  qed
qed

lemma scan_loop_nonpositive:
  assumes nonpos: "sint targetLine \<le> 0"
    and len: "length (file_lines content) < 2 ^ 63"
    and short: "\<forall>l\<in>set (file_lines content). length l < MaxScanTokenSize"
  shows "scan_loop content rerr 1 targetLine = not_found rerr targetLine"
  using short
proof (rule scan_loop_not_found)
  show "\<forall>j<length (file_lines content). 1 + of_nat j \<noteq> targetLine"
  proof (intro allI impI)
    fix j assume "j < length (file_lines content)"
    then have "Suc j < 2 ^ 63"
      using len by linarith
    with nonpos show "1 + of_nat j \<noteq> targetLine"
      by (rule counter_above_target)
  qed
qed

lemma scan_loop_long_line:
  assumes k: "k < length (file_lines content)"
    and before: "int k < sint targetLine"
    and long: "MaxScanTokenSize \<le> length (file_lines content ! k)"
    and short: "\<forall>l\<in>set (take k (file_lines content)). length l < MaxScanTokenSize"
  shows "scan_loop content rerr 1 targetLine = ('''', Some ErrTooLong)"
  using k long
proof (rule scan_loop_too_long)
  show "\<forall>i<k. length (file_lines content ! i) < MaxScanTokenSize"
  proof (intro allI impI)
    fix i assume "i < k"
    moreover from this have "i < length (file_lines content)"
      using k by simp
    ultimately show "length (file_lines content ! i) < MaxScanTokenSize"
      using short by (intro all_take_nth [where k = k and P = "\<lambda>l. length l < MaxScanTokenSize"])
  qed
  show "\<forall>j<k. 1 + of_nat j \<noteq> targetLine"
  proof (intro allI impI)
    fix j assume "j < k"
    then have "int (Suc j) < sint targetLine"
      using before by linarith
    then show "1 + of_nat j \<noteq> targetLine"
      by (rule counter_below_target)
  qed
qed

lemma file_lines_replicate:
  assumes "c \<noteq> LF" and "0 < n"
  shows "file_lines (replicate n c) = [replicate n c]"
proof -
  have ne: "replicate n c \<noteq> []"
    using assms(2) by simp
  have tw: "takeWhile (\<lambda>c. c \<noteq> LF) (replicate n c) = replicate n c"
    using assms(1) by simp
  show ?thesis
    using assms by (subst file_lines_unfold [OF ne]) (simp add: tw file_lines_Nil)
qed

lemma a_not_LF: "CHR ''a'' \<noteq> LF"
  by (simp add: LF_def)

lemma long_line: "file_lines (replicate 65536 CHR ''a'') = [replicate 65536 CHR ''a'']"
  using file_lines_replicate [OF a_not_LF, of 65536] by simp

section \<open>Successful reads\<close>





section \<open>The rendering loops\<close>

lemma range_loop_append:
  "range_loop body (xs @ ys) =
     (case range_loop body xs of
        (Next, t) \<Rightarrow> (case range_loop body ys of (c, t') \<Rightarrow> (c, t @ t'))
      | (c, t) \<Rightarrow> (c, t))"
  by (induction xs) (auto split: prod.splits control.splits)

lemma range_loop_concat:
  "range_loop (\<lambda>x. range_loop body (f x)) xs = range_loop body (concat (map f xs))"
  by (induction xs) (auto simp: range_loop_append split: prod.splits control.splits)

lemma range_loop_map:
  "range_loop body (map f xs) = range_loop (\<lambda>x. body (f x)) xs"
  by (induction xs) (auto split: prod.splits control.splits)

lemma range_loop_pairs:
  "range_loop (\<lambda>run. range_loop (\<lambda>result. range_loop (body result) (Locations result)) (Results run))
     (Runs report)
   = range_loop (\<lambda>(result, location). body result location) (pairs report)"
proof -
  have inner: "\<And>result. range_loop (body result) (Locations result)
      = range_loop (\<lambda>(result, location). body result location) (map (Pair result) (Locations result))"
    by (simp add: range_loop_map)
  show ?thesis
    unfolding pairs_def inner range_loop_concat ..
qed

lemma range_loop_all_Next:
  assumes "\<forall>x\<in>set xs. body x = (Next, blk x)"
  shows "range_loop body xs = (Next, concat (map blk xs))"
  using assms by (induction xs) auto

lemma range_loop_stops:
  assumes "\<forall>x\<in>set xs. body x = (Next, blk x)" and "body y = (c, t)" and "c \<noteq> Next"
  shows "range_loop body (xs @ y # ys) = (c, concat (map blk xs) @ t)"
proof -
  have "range_loop body xs = (Next, concat (map blk xs))"
    using assms(1) by (rule range_loop_all_Next)
  then show ?thesis
    using assms(2,3) by (cases c) (simp_all add: range_loop_append)
qed

lemma range_loop_prefix:
  assumes "\<forall>x\<in>set xs. body x = (Next, blk x)"
  shows "snd (range_loop body (xs @ ys)) = concat (map blk xs) @ snd (range_loop body ys)"
proof -
  have "range_loop body xs = (Next, concat (map blk xs))"
    using assms by (rule range_loop_all_Next)
  then show ?thesis
    by (simp add: range_loop_append split: prod.splits)
qed


lemma sint_le_maxInt: "sint (w :: go_int) \<le> maxInt"
  using sint_lt [of w] by (simp add: maxInt_def)

lemma strings_Repeat_space:
  "strings_Repeat mem '' '' count =
     (if sint count < 0 then Panicking ''strings: negative Repeat count''
      else if maxAlloc mem < nat (sint count)
        then Panicking ''runtime error: makeslice: len out of range''
      else if available mem < nat (sint count)
        then Dying ''fatal error: runtime: out of memory''
      else Gives (replicate (nat (sint count)) CHR '' ''))"
proof -
  have "concat (replicate n '' '') = replicate n CHR '' ''" for n
    by (induction n) simp_all
  then show ?thesis
    using sint_le_maxInt [of count] by (simp add: strings_Repeat_def)
qed

lemma readSpecificLine_opened:
  assumes "snd (fst (readSpecificLine fs filePath targetLine)) = None"
  shows "snd (readSpecificLine fs filePath targetLine) = [Open filePath, Close filePath]"
  using assms by (simp add: readSpecificLine_def split: file_state.splits)

lemma readSpecificLine_read:
  assumes "snd (read_line fs location) = None"
  shows "readSpecificLine fs (uri_of location) (line_of location) =
    ((fst (read_line fs location), None), [Open (uri_of location), Close (uri_of location)])"
proof -
  have "fst (readSpecificLine fs (uri_of location) (line_of location)) =
      (fst (read_line fs location), None)"
    using assms by (metis read_line_def prod.collapse)
  moreover have "snd (readSpecificLine fs (uri_of location) (line_of location))
      = [Open (uri_of location), Close (uri_of location)]"
    using assms by (simp add: read_line_def readSpecificLine_opened)
  ultimately show ?thesis
    by (metis prod.collapse)
qed

lemma location_body_read:
  assumes "snd (read_line fs location) = None"
  shows "location_body mem red yellow fs result location =
    (case strings_Repeat mem '' '' (column_of location) of
       Panicking msg \<Rightarrow> (Panic msg, take 4 (block red yellow fs (result, location)))
     | Dying msg \<Rightarrow> (Fatal msg, take 4 (block red yellow fs (result, location)))
     | Gives spaces \<Rightarrow>
         (Next, take 4 (block red yellow fs (result, location)) @ [Stdout (spaces @ yellow ''^'' @ [LF])]))"
  using readSpecificLine_read [OF assms]
  by (simp add: location_body_def block_def block_lines_def uri_of_def line_of_def column_of_def
      Let_def split: go_call.splits)

lemma location_body_rendered:
  assumes "rendered mem fs (result, location)"
  shows "location_body mem red yellow fs result location = (Next, block red yellow fs (result, location))"
  using assms
  by (simp add: rendered_def location_body_read strings_Repeat_space block_def block_lines_def)

lemma location_body_read_fails:
  assumes "snd (read_line fs location) = Some err"
  shows "location_body mem red yellow fs result location =
    (Return (WrapError (''failed to read file: '' @ Error err) err),
     snd (readSpecificLine fs (uri_of location) (line_of location)))"
proof -
  obtain code t where "readSpecificLine fs (uri_of location) (line_of location) = ((code, Some err), t)"
    using assms by (metis read_line_def prod.collapse)
  then show ?thesis
    by (simp add: location_body_def uri_of_def line_of_def Let_def)
qed

lemma location_body_panics:
  assumes "snd (read_line fs location) = None" and "sint (column_of location) < 0"
  shows "location_body mem red yellow fs result location =
    (Panic ''strings: negative Repeat count'', take 4 (block red yellow fs (result, location)))"
  using assms by (simp add: location_body_read strings_Repeat_space)

lemma location_body_too_long:
  assumes "snd (read_line fs location) = None" and "0 \<le> sint (column_of location)"
    and "maxAlloc mem < nat (sint (column_of location))"
  shows "location_body mem red yellow fs result location =
    (Panic ''runtime error: makeslice: len out of range'',
     take 4 (block red yellow fs (result, location)))"
  using assms by (simp add: location_body_read strings_Repeat_space)

lemma location_body_out_of_memory:
  assumes "snd (read_line fs location) = None" and "0 \<le> sint (column_of location)"
    and "nat (sint (column_of location)) \<le> maxAlloc mem"
    and "available mem < nat (sint (column_of location))"
  shows "location_body mem red yellow fs result location =
    (Fatal ''fatal error: runtime: out of memory'',
     take 4 (block red yellow fs (result, location)))"
  using assms by (simp add: location_body_read strings_Repeat_space)

lemma printed_append: "printed (s @ t) = printed s @ printed t"
  by (simp add: printed_def)

lemma printed_Nil: "printed [] = []"
  by (simp add: printed_def)

lemma printed_block:
  "printed (block red yellow fs p) = map (\<lambda>l. l @ [LF]) (block_lines red yellow fs p)"
  by (simp add: printed_def block_def block_lines_def)

lemma printed_blocks:
  "printed (concat (map (block red yellow fs) ps)) =
     map (\<lambda>l. l @ [LF]) (concat (map (block_lines red yellow fs) ps))"
  by (induction ps) (simp_all add: printed_append printed_block printed_Nil)

lemma length_block_lines: "length (block_lines red yellow fs p) = 3"
  by (simp add: block_lines_def)

lemma length_blocks_lines:
  "length (concat (map (block_lines red yellow fs) ps)) = 3 * length ps"
  by (induction ps) (simp_all add: length_block_lines)

lemma nth_blocks_lines:
  assumes "i < length ps" and "k < 3"
  shows "concat (map (block_lines red yellow fs) ps) ! (3 * i + k) = block_lines red yellow fs (ps ! i) ! k"
  using assms
proof (induction ps arbitrary: i)
  case Nil
  then show ?case by simp
next
  case (Cons p ps)
  show ?case
  proof (cases i)
    case 0
    then show ?thesis
      using Cons.prems by (simp add: nth_append length_block_lines)
  next
    case (Suc j)
    then have "concat (map (block_lines red yellow fs) ps) ! (3 * j + k) =
        block_lines red yellow fs (ps ! j) ! k"
      using Cons.prems by (intro Cons.IH) simp_all
    moreover have "3 * i + k = 3 + (3 * j + k)"
      using Suc by simp
    ultimately show ?thesis
      using Suc by (simp add: nth_append length_block_lines)
  qed
qed

lemma printed_readSpecificLine:
  "printed (snd (readSpecificLine fs filePath targetLine)) = []"
  by (simp add: readSpecificLine_def printed_def split: file_state.splits)

lemma printFindings_pairs:
  "printFindings mem red yellow fs (Some report) =
     (case range_loop (\<lambda>(result, location). location_body mem red yellow fs result location)
             (pairs report) of
        (Next, t) \<Rightarrow> (Returned None, t)
      | (Return err, t) \<Rightarrow> (Returned (Some err), t)
      | (Panic msg, t) \<Rightarrow> (Panicked msg, t)
      | (Fatal msg, t) \<Rightarrow> (FatalError msg, t))"
  by (simp add: printFindings_def range_loop_pairs)

lemma snd_printFindings:
  "snd (printFindings mem red yellow fs (Some report)) =
     snd (range_loop (\<lambda>(result, location). location_body mem red yellow fs result location) (pairs report))"
  by (simp add: printFindings_pairs split: prod.splits control.splits)

lemma rendered_body:
  assumes "\<forall>p\<in>set ps. rendered mem fs p"
  shows "\<forall>p\<in>set ps. (\<lambda>(result, location). location_body mem red yellow fs result location) p
           = (Next, block red yellow fs p)"
  using assms by (auto simp: location_body_rendered)

lemma length_pairs:
  "length (pairs report) =
     sum_list (map (\<lambda>run. sum_list (map (\<lambda>result. length (Locations result)) (Results run)))
       (Runs report))"
  by (simp add: pairs_def length_concat comp_def)

lemma trace_prefix:
  assumes "\<forall>p\<in>set (take k (pairs report)). rendered mem fs p"
  shows "snd (printFindings mem red yellow fs (Some report)) =
    concat (map (block red yellow fs) (take k (pairs report))) @
    snd (range_loop (\<lambda>(result, location). location_body mem red yellow fs result location)
      (drop k (pairs report)))"
proof -
  let ?body = "\<lambda>(result, location). location_body mem red yellow fs result location"
  have "\<forall>p\<in>set (take k (pairs report)). ?body p = (Next, block red yellow fs p)"
    using assms by (rule rendered_body)
  then have "snd (range_loop ?body (take k (pairs report) @ drop k (pairs report))) =
      concat (map (block red yellow fs) (take k (pairs report))) @
      snd (range_loop ?body (drop k (pairs report)))"
    by (rule range_loop_prefix)
  then show ?thesis
    by (simp add: snd_printFindings)
qed


lemma printFindings_stops:
  assumes i: "i < length (pairs report)"
    and before: "\<forall>p\<in>set (take i (pairs report)). rendered mem fs p"
    and body: "location_body mem red yellow fs (fst (pairs report ! i)) (snd (pairs report ! i)) = (c, t)"
    and c: "c \<noteq> Next"
  shows "printFindings mem red yellow fs (Some report) =
    ((case c of Return err \<Rightarrow> Returned (Some err) | Panic msg \<Rightarrow> Panicked msg
        | Fatal msg \<Rightarrow> FatalError msg | Next \<Rightarrow> Returned None),
     concat (map (block red yellow fs) (take i (pairs report))) @ t)"
proof -
  let ?ps = "pairs report"
  let ?body = "\<lambda>(result, location). location_body mem red yellow fs result location"
  have "\<forall>p\<in>set (take i ?ps). ?body p = (Next, block red yellow fs p)"
    using before by (rule rendered_body)
  moreover have "?body (?ps ! i) = (c, t)"
    using body by (simp add: split_beta)
  ultimately have "range_loop ?body (take i ?ps @ ?ps ! i # drop (Suc i) ?ps) =
      (c, concat (map (block red yellow fs) (take i ?ps)) @ t)"
    using c by (rule range_loop_stops)
  moreover have "take i ?ps @ ?ps ! i # drop (Suc i) ?ps = ?ps"
    using i by (simp add: Cons_nth_drop_Suc)
  ultimately have "range_loop ?body ?ps = (c, concat (map (block red yellow fs) (take i ?ps)) @ t)"
    by simp
  then show ?thesis
    using c by (cases c) (simp_all add: printFindings_pairs)
qed

section \<open>Lines of the output\<close>

lemma lines_from_line:
  "LF \<notin> set l \<Longrightarrow> lines_from cur (l @ LF # rest) = (cur @ l) # lines_from [] rest"
  by (induction l arbitrary: cur) auto

lemma file_lines_lines:
  assumes "\<forall>l\<in>set ls. LF \<notin> set l"
  shows "file_lines (concat (map (\<lambda>l. l @ [LF]) ls) @ rest) = ls @ file_lines rest"
  using assms
proof (induction ls)
  case Nil
  show ?case by simp
next
  case (Cons l ls)
  then have "lines_from [] (l @ LF # (concat (map (\<lambda>l. l @ [LF]) ls) @ rest)) =
      l # lines_from [] (concat (map (\<lambda>l. l @ [LF]) ls) @ rest)"
    using lines_from_line [of l "[]"] by simp
  then show ?case
    using Cons by (simp add: file_lines_def)
qed

lemma stdout_lines_prefix:
  assumes "printed t = map (\<lambda>l. l @ [LF]) ls @ rest" and "\<forall>l\<in>set ls. LF \<notin> set l"
  shows "stdout_lines t = ls @ file_lines (concat rest)"
  using assms by (simp add: stdout_lines_def file_lines_lines)

lemma digit_not_LF: "k < 10 \<Longrightarrow> ''0123456789'' ! k \<noteq> LF"
proof -
  assume "k < 10"
  then have "''0123456789'' ! k \<in> set ''0123456789''"
    by (intro nth_mem) simp
  then show ?thesis
    by (auto simp: LF_def)
qed

lemma digits_one_line: "LF \<notin> set (digits n)"
proof (induction n rule: digits.induct)
  case (1 n)
  show ?case
  proof (cases "n < 10")
    case True
    then show ?thesis
      using digit_not_LF [of n] by (subst digits.simps) simp
  next
    case False
    moreover have "''0123456789'' ! (n mod 10) \<noteq> LF"
      by (rule digit_not_LF) simp
    ultimately show ?thesis
      using 1 by (subst digits.simps) simp
  qed
qed

lemma fmt_d_one_line: "LF \<notin> set (fmt_d i)"
  by (simp add: fmt_d_def digits_one_line) (simp add: LF_def)

lemma dropCR_one_line: "LF \<notin> set data \<Longrightarrow> LF \<notin> set (dropCR data)"
  by (auto simp: dropCR_def dest: in_set_butlastD)

lemma scan_loop_one_line: "LF \<notin> set (fst (scan_loop input rerr currentLine targetLine))"
proof (induction input rerr currentLine targetLine rule: scan_loop.induct)
  case (1 input rerr currentLine targetLine)
  show ?case
  proof (cases "Scan input rerr")
    case (Token tok rest)
    then have "tok = dropCR (takeWhile (\<lambda>c. c \<noteq> LF) input)"
      by (simp add: Scan_eq split: if_splits)
    moreover have "LF \<notin> set (takeWhile (\<lambda>c. c \<noteq> LF) input)"
      by (auto dest: set_takeWhileD)
    ultimately have "LF \<notin> set tok"
      by (simp add: dropCR_one_line)
    then show ?thesis
      using Token 1 by (subst scan_loop.simps) simp
  next
    case (Stop err)
    then show ?thesis
      by (subst scan_loop.simps) (simp split: option.splits)
  qed
qed

lemma read_line_one_line: "LF \<notin> set (fst (read_line fs location))"
  by (simp add: read_line_def readSpecificLine_def scan_loop_one_line split: file_state.splits)

lemma block_lines_one_line:
  assumes "one_line_each red yellow p"
  shows "\<forall>l\<in>set (block_lines red yellow fs p). LF \<notin> set l"
  using assms
  by (simp add: block_lines_def one_line_each_def fmt_d_one_line read_line_one_line)
     (simp add: LF_def)

lemma blocks_lines_one_line:
  assumes "\<forall>p\<in>set ps. one_line_each red yellow p"
  shows "\<forall>l\<in>set (concat (map (block_lines red yellow fs) ps)). LF \<notin> set l"
  using assms block_lines_one_line by fastforce

lemma printed_nth:
  assumes "printed t = map (\<lambda>l. l @ [LF]) ls @ rest" and "j < length ls"
  shows "printed t ! j = ls ! j @ [LF]"
  using assms by (simp add: nth_append)

lemma stdout_lines_nth:
  assumes "printed t = map (\<lambda>l. l @ [LF]) ls @ rest" and "\<forall>l\<in>set ls. LF \<notin> set l"
    and "j < length ls"
  shows "stdout_lines t ! j = ls ! j"
  using stdout_lines_prefix [OF assms(1,2)] assms(3) by (simp add: nth_append)

lemma printed_trace_prefix:
  assumes "\<forall>p\<in>set (take k (pairs report)). rendered mem fs p"
  shows "\<exists>rest. printed (snd (printFindings mem red yellow fs (Some report))) =
    map (\<lambda>l. l @ [LF]) (concat (map (block_lines red yellow fs) (take k (pairs report)))) @ rest"
  using trace_prefix [OF assms, of red yellow] by (simp add: printed_append printed_blocks)




section \<open>The orchestrator\<close>

lemma dbPath_shape:
  assumes "os_MkdirTemp e dir ''cosmos-migration-db'' = Inr dbPath"
  shows "dbPath \<noteq> '''' \<and> dbPath \<noteq> ''--command''"
proof -
  have "19 \<le> length (joinPath d ''cosmos-migration-db'' @ r)" for d r
    by (simp add: joinPath_def)
  then have "19 \<le> length dbPath"
    using assms by (auto simp: os_MkdirTemp_def split: option.splits)
  then show ?thesis
    by auto
qed

lemma create_command_eq:
  "create_command dir customBuildCommand dbPath =
     ([''codeql'', ''database'', ''create'', ''--language=go'', ''--source-root'', dir] @
      (if customBuildCommand \<noteq> '''' then [''--command'', customBuildCommand] else []) @ [dbPath],
      (if customBuildCommand \<noteq> ''''
       then [Stdout (''Using custom build command: '' @ customBuildCommand @ [LF])] else []) @
      [Stdout (Println_slice
         ([''codeql'', ''database'', ''create'', ''--language=go'', ''--source-root'', dir] @
          (if customBuildCommand \<noteq> '''' then [''--command'', customBuildCommand] else []) @
          [dbPath]))])"
  by (simp add: create_command_def Let_def)

lemma adjacent_nth:
  assumes "xs = before @ [a, b] @ after" and "length xs = Suc n"
  shows "\<exists>i<n. xs ! i = a \<and> xs ! Suc i = b"
proof (intro exI conjI)
  show "length before < n"
    using assms by simp
  show "xs ! length before = a" and "xs ! Suc (length before) = b"
    using assms(1) by (simp_all add: nth_append)
qed

lemma runMigrationCheck_events:
  assumes "os_MkdirTemp e (os_TempDir e) ''cosmos-migration-db'' = Inr dbPath"
  shows "runMigrationCheck e dir customBuildCommand =
     (fst (check_body e dir customBuildCommand dbPath),
      [MkdirTemp (os_TempDir e) ''cosmos-migration-db''] @
      snd (check_body e dir customBuildCommand dbPath) @
      (case fst (check_body e dir customBuildCommand dbPath) of
         FatalError msg \<Rightarrow> [] | _ \<Rightarrow> [RemoveAll dbPath]))"
  using assms by (simp add: runMigrationCheck_def split: prod.splits outcome.splits)

lemma check_body_starts:
  "\<exists>rest. snd (check_body e dir customBuildCommand dbPath) =
     snd (create_command dir customBuildCommand dbPath) @
     [Exec (fst (create_command dir customBuildCommand dbPath))] @ rest"
  by (cases "create_command dir customBuildCommand dbPath")
     (auto simp: check_body_def split: option.splits prod.splits)










text \<open>The equations that evaluate the program on a concrete input.\<close>

lemma replicate_numeral_Cons:
  "replicate (numeral k) x = x # replicate (pred_numeral k) x"
  by (simp add: numeral_eq_Suc)

lemmas eval_rules = replicate_numeral_Cons
  pairs_def rendered_def read_line_def uri_of_def line_of_def column_of_def block_def block_lines_def
  printed_def stdout_lines_def one_line_each_def file_lines_def
  readSpecificLine_def os_Open_def scan_loop.simps Scan_def ScanLines_def dropCR_def LF_def CR_def
  MaxScanTokenSize_def Let_def fmt_d_def digits.simps printFindings_def location_body_def
  strings_Repeat_def maxInt_def finding_at_def example_files_def example_report_def
  example_memory_def

section \<open>The decoder\<close>




text \<open>
  The decoder takes a negative start column: \<^verbatim>\<open>StartColumn\<close> is a plain \<^verbatim>\<open>int\<close>.
\<close>

lemma negative_column_decodes:
  "decode_SarifRegion equalFold_ascii
     (JObject [(''startLine'', JInt 1), (''startColumn'', JInt (- 1))])
   = Decoded \<lparr>StartLine = 1, StartColumn = - 1, EndLine = 0\<rparr>"
  by code_simp

section \<open>The caret line\<close>

text \<open>
  Claim C1.  For every (Result, Location) pair that \<^verbatim>\<open>printFindings\<close> renders, the third
  line printed for the pair is exactly \<open>StartColumn\<close> space characters followed by the
  caret as \<^verbatim>\<open>yellow.Sprint\<close> returns it (one caret character when colors are off) and
  the newline of \<^verbatim>\<open>Println\<close>.  The column is the space count as it is: the source line's
  length plays no part.  A pair is rendered when it and every pair before it have a
  readable source line and a start column that the runtime can allocate as a string of
  spaces: not negative and within the bounds of the memory (outside them line 157
  panics or ends the process, and no third line is printed).  Pair \<open>i\<close> (from 0) then
  owns the prints \<open>3 * i\<close>, \<open>3 * i + 1\<close> and \<open>3 * i + 2\<close>; and when no URI, colored
  message or colored caret up to that pair holds a line feed, line \<open>3 * i + 2\<close> of the
  output is the spaces and the caret.
\<close>

theorem caret_line:
  assumes "i < length (pairs report)"
    and "\<forall>p\<in>set (take (Suc i) (pairs report)). rendered mem fs p"
  shows "printed (snd (printFindings mem red yellow fs (Some report))) ! (3 * i + 2) =
           replicate (nat (sint (column_of (snd (pairs report ! i))))) CHR '' '' @ yellow ''^'' @ [LF]
       \<and> ((\<forall>p\<in>set (take (Suc i) (pairs report)). one_line_each red yellow p) \<longrightarrow>
            stdout_lines (snd (printFindings mem red yellow fs (Some report))) ! (3 * i + 2) =
              replicate (nat (sint (column_of (snd (pairs report ! i))))) CHR '' '' @ yellow ''^'')"
proof -
  let ?t = "snd (printFindings mem red yellow fs (Some report))"
  let ?ps = "take (Suc i) (pairs report)"
  let ?ls = "concat (map (block_lines red yellow fs) ?ps)"
  obtain rest where printed: "printed ?t = map (\<lambda>l. l @ [LF]) ?ls @ rest"
    using printed_trace_prefix [OF assms(2), of red yellow] by blast
  have i: "i < length ?ps"
    using assms(1) by simp
  then have "?ls ! (3 * i + 2) = block_lines red yellow fs (?ps ! i) ! 2"
    by (rule nth_blocks_lines) simp
  then have nth: "?ls ! (3 * i + 2) =
      replicate (nat (sint (column_of (snd (pairs report ! i))))) CHR '' '' @ yellow ''^''"
    by (simp add: block_lines_def)
  have j: "3 * i + 2 < length ?ls"
    using i by (simp only: length_blocks_lines)
  have "printed ?t ! (3 * i + 2) = ?ls ! (3 * i + 2) @ [LF]"
    using printed j by (rule printed_nth)
  moreover have "stdout_lines ?t ! (3 * i + 2) = ?ls ! (3 * i + 2)"
    if "\<forall>p\<in>set ?ps. one_line_each red yellow p"
  proof -
    have "\<forall>l\<in>set ?ls. LF \<notin> set l"
      using that by (rule blocks_lines_one_line)
    with printed show ?thesis
      using j by (rule stdout_lines_nth)
  qed
  ultimately show ?thesis
    by (simp only: nth append_assoc) blast
qed

text \<open>
  Colors off, column 5 and column 0: five spaces and a caret, and a caret alone.
\<close>

theorem caret_line_witness:
  "printed (snd (printFindings example_memory id id example_files (Some example_report))) ! 2 =
     ''     ^'' @ [LF]
   \<and> stdout_lines (snd (printFindings example_memory id id example_files (Some example_report))) ! 2 =
     ''     ^''
   \<and> printed (snd (printFindings example_memory id id example_files (Some example_report))) ! 5 =
     ''^'' @ [LF]
   \<and> stdout_lines (snd (printFindings example_memory id id example_files (Some example_report))) ! 5 =
     ''^''"
  using caret_line [of 0 example_report example_memory example_files id id]
    caret_line [of 1 example_report example_memory example_files id id]
  by (simp add: eval_rules)

section \<open>Reading one line\<close>

text \<open>
  Claim C2, as amended.  Let the file open, and count its lines from 1.  For a target
  line number between 1 and the file's line count, when none of the lines up to the
  target has 65536 bytes or more before its line feed, \<^verbatim>\<open>readSpecificLine\<close> returns the
  text of that line with a nil error: the bytes of the line without the line feed, and
  without one carriage return at the end of them, nothing else trimmed.  For a target
  greater than the line count, when no line of the file is that long and the reads end
  without an error, it returns the empty string and the error ``file has less than N
  lines''.  When the first line of 65536 bytes or more comes before the target line or
  is the target line, it returns the empty string and the scanner's error ``token too
  long'' instead.  (A target that is zero or negative gets the error ``file has less
  than N lines'' as well, for a file of fewer than \<open>2 ^ 63\<close> lines.)
\<close>

theorem readSpecificLine_lines:
  assumes "os_Open fs filePath = Opened content rerr"
  shows "(1 \<le> sint targetLine \<and> nat (sint targetLine) \<le> length (file_lines content) \<and>
          (\<forall>l\<in>set (take (nat (sint targetLine)) (file_lines content)). length l < MaxScanTokenSize)
          \<longrightarrow> fst (readSpecificLine fs filePath targetLine) =
                (dropCR (file_lines content ! (nat (sint targetLine) - 1)), None))
       \<and> (int (length (file_lines content)) < sint targetLine \<and>
          (\<forall>l\<in>set (file_lines content). length l < MaxScanTokenSize) \<and> rerr = None
          \<longrightarrow> fst (readSpecificLine fs filePath targetLine) =
                ('''', Some (ErrorString (''file has less than '' @ fmt_d targetLine @ '' lines''))))
       \<and> (\<forall>k. k < length (file_lines content) \<and> int k < sint targetLine \<and>
              MaxScanTokenSize \<le> length (file_lines content ! k) \<and>
              (\<forall>l\<in>set (take k (file_lines content)). length l < MaxScanTokenSize)
          \<longrightarrow> fst (readSpecificLine fs filePath targetLine) = ('''', Some ErrTooLong))
       \<and> (sint targetLine \<le> 0 \<and> length (file_lines content) < 2 ^ 63 \<and>
          (\<forall>l\<in>set (file_lines content). length l < MaxScanTokenSize) \<and> rerr = None
          \<longrightarrow> fst (readSpecificLine fs filePath targetLine) =
                ('''', Some (ErrorString (''file has less than '' @ fmt_d targetLine @ '' lines''))))"
  unfolding readSpecificLine_scan [OF assms]
  by (auto simp only: scan_loop_line scan_loop_beyond scan_loop_nonpositive scan_loop_long_line
      not_found_def option.case)

text \<open>
  A file of three lines, the third with blanks on both sides and ended by a carriage
  return and a line feed: line 3, line 4 and line 0.
\<close>

theorem readSpecificLine_lines_witness:
  "fst (readSpecificLine [(''foo.go'', Opened (''package main'' @ [LF, LF] @ ''  x := 1  '' @ [CR, LF]) None)]
          ''foo.go'' 3) = (''  x := 1  '', None)
   \<and> fst (readSpecificLine [(''foo.go'', Opened (''package main'' @ [LF, LF] @ ''  x := 1  '' @ [CR, LF]) None)]
          ''foo.go'' 4) = ('''', Some (ErrorString ''file has less than 4 lines''))
   \<and> fst (readSpecificLine [(''foo.go'', Opened (''package main'' @ [LF, LF] @ ''  x := 1  '' @ [CR, LF]) None)]
          ''foo.go'' 0) = ('''', Some (ErrorString ''file has less than 0 lines''))"
  using
    readSpecificLine_lines [of "[(''foo.go'', Opened (''package main'' @ [LF, LF] @ ''  x := 1  '' @ [CR, LF]) None)]"
      "''foo.go''" "''package main'' @ [LF, LF] @ ''  x := 1  '' @ [CR, LF]" None 3]
    readSpecificLine_lines [of "[(''foo.go'', Opened (''package main'' @ [LF, LF] @ ''  x := 1  '' @ [CR, LF]) None)]"
      "''foo.go''" "''package main'' @ [LF, LF] @ ''  x := 1  '' @ [CR, LF]" None 4]
    readSpecificLine_lines [of "[(''foo.go'', Opened (''package main'' @ [LF, LF] @ ''  x := 1  '' @ [CR, LF]) None)]"
      "''foo.go''" "''package main'' @ [LF, LF] @ ''  x := 1  '' @ [CR, LF]" None 0]
  by (simp add: os_Open_def file_lines_def dropCR_def LF_def CR_def MaxScanTokenSize_def
      fmt_d_def digits.simps)

text \<open>
  The claim as it was stated fails on a file of one line of 65536 bytes: line 1 is
  within the line count and is not returned.
\<close>

theorem readSpecificLine_long_line_counterexample:
  "length (file_lines (replicate 65536 CHR ''a'')) = 1
   \<and> readSpecificLine [(''big.go'', Opened (replicate 65536 CHR ''a'') None)] ''big.go'' 1 =
       (('''', Some (ErrorString ''bufio.Scanner: token too long'')),
        [Open ''big.go'', Close ''big.go''])"
proof -
  have "scan_loop (replicate 65536 CHR ''a'') None 1 1 = ('''', Some ErrTooLong)"
    by (rule scan_loop_too_long [of 0]) (simp_all add: long_line MaxScanTokenSize_def)
  then show ?thesis
    by (simp add: long_line readSpecificLine_def os_Open_def ErrTooLong_def)
qed

section \<open>One block per location\<close>

text \<open>
  Claim C3, as amended.  For every report, when every referenced source line is
  readable and every start column is a count of spaces that the runtime can allocate
  (not negative, not above the largest allocation and not above the memory available),
  \<^verbatim>\<open>printFindings\<close> returns nil and its effects are exactly the diagnostic blocks of the
  (Result, Location) pairs, one block of three prints per pair, in run order, then
  result order, then location order, nothing sorted, merged or left out; the prints are
  three times the total number of locations of all results of all runs, so a result
  with no location prints nothing.  When no URI, colored message text or colored caret
  holds a line feed, the lines of the output are exactly the lines of the blocks, three
  per pair.
\<close>

theorem printFindings_blocks:
  assumes "\<forall>p\<in>set (pairs report). rendered mem fs p"
  shows "printFindings mem red yellow fs (Some report) =
           (Returned None, concat (map (block red yellow fs) (pairs report)))
       \<and> length (printed (snd (printFindings mem red yellow fs (Some report)))) =
           3 * sum_list (map (\<lambda>run. sum_list (map (\<lambda>result. length (Locations result)) (Results run)))
                 (Runs report))
       \<and> ((\<forall>p\<in>set (pairs report). one_line_each red yellow p) \<longrightarrow>
            stdout_lines (snd (printFindings mem red yellow fs (Some report))) =
              concat (map (block_lines red yellow fs) (pairs report))
          \<and> length (stdout_lines (snd (printFindings mem red yellow fs (Some report)))) =
              3 * sum_list (map (\<lambda>run. sum_list (map (\<lambda>result. length (Locations result)) (Results run)))
                    (Runs report)))"
proof -
  let ?t = "snd (printFindings mem red yellow fs (Some report))"
  let ?ls = "concat (map (block_lines red yellow fs) (pairs report))"
  have "range_loop (\<lambda>(result, location). location_body mem red yellow fs result location) (pairs report)
      = (Next, concat (map (block red yellow fs) (pairs report)))"
    using rendered_body [OF assms] by (rule range_loop_all_Next)
  then have eq: "printFindings mem red yellow fs (Some report) =
           (Returned None, concat (map (block red yellow fs) (pairs report)))"
    by (simp add: printFindings_pairs)
  then have printed: "printed ?t = map (\<lambda>l. l @ [LF]) ?ls @ []"
    by (simp add: printed_blocks)
  have len: "length ?ls =
      3 * sum_list (map (\<lambda>run. sum_list (map (\<lambda>result. length (Locations result)) (Results run)))
                 (Runs report))"
    by (simp only: length_blocks_lines length_pairs)
  have calls: "length (printed ?t) =
      3 * sum_list (map (\<lambda>run. sum_list (map (\<lambda>result. length (Locations result)) (Results run)))
                 (Runs report))"
    using printed len by simp
  have "stdout_lines ?t = ?ls" if "\<forall>p\<in>set (pairs report). one_line_each red yellow p"
  proof -
    have "\<forall>l\<in>set ?ls. LF \<notin> set l"
      using that by (rule blocks_lines_one_line)
    with printed have "stdout_lines ?t = ?ls @ file_lines (concat [])"
      by (rule stdout_lines_prefix)
    then show ?thesis
      by (simp add: file_lines_Nil)
  qed
  with eq calls len show ?thesis
    by (simp only:) simp
qed

text \<open>
  Two runs, three locations and a result with none: nine lines in three blocks.
\<close>

theorem printFindings_blocks_witness:
  "printFindings example_memory id id example_files (Some example_report) =
     (Returned None,
      [Open ''foo.go'', Close ''foo.go'',
       Stdout (''foo.go:3:5: unused variable'' @ [LF]),
       Stdout (''  3: x := 1'' @ [LF]),
       Stdout (''     ^'' @ [LF]),
       Open ''foo.go'', Close ''foo.go'',
       Stdout (''foo.go:1:0: unused variable'' @ [LF]),
       Stdout (''  1: package main'' @ [LF]),
       Stdout (''^'' @ [LF]),
       Open ''foo.go'', Close ''foo.go'',
       Stdout (''foo.go:3:2: shadowed'' @ [LF]),
       Stdout (''  3: x := 1'' @ [LF]),
       Stdout (''  ^'' @ [LF])])
   \<and> length (printed (snd (printFindings example_memory id id example_files (Some example_report)))) = 9
   \<and> stdout_lines (snd (printFindings example_memory id id example_files (Some example_report))) =
       [''foo.go:3:5: unused variable'', ''  3: x := 1'', ''     ^'',
        ''foo.go:1:0: unused variable'', ''  1: package main'', ''^'',
        ''foo.go:3:2: shadowed'', ''  3: x := 1'', ''  ^'']"
  using printFindings_blocks [of example_report example_memory example_files id id]
  by (simp add: eval_rules)

text \<open>
  The claim as it was stated fails on a report whose only location has a readable line
  and start column -1: two lines are printed, then the program panics.  It fails as
  well with start column \<open>2 ^ 63 - 1\<close>: two lines, then the panic of the allocation.
\<close>

theorem printFindings_blocks_counterexample:
  "snd (fst (readSpecificLine [(''foo.go'', Opened (''x := 1'' @ [LF]) None)] ''foo.go'' 1)) = None
   \<and> printFindings example_memory id id [(''foo.go'', Opened (''x := 1'' @ [LF]) None)]
     (Some \<lparr>Runs = [\<lparr>Results = [\<lparr>Message = \<lparr>Text = ''unused variable''\<rparr>,
        Locations = [\<lparr>PhysicalLocation = \<lparr>ArtifactLocation = \<lparr>Uri = ''foo.go''\<rparr>,
           Region = \<lparr>StartLine = 1, StartColumn = - 1, EndLine = 1\<rparr>\<rparr>\<rparr>]\<rparr>]\<rparr>]\<rparr>) =
     (Panicked ''strings: negative Repeat count'',
      [Open ''foo.go'', Close ''foo.go'',
       Stdout (''foo.go:1:-1: unused variable'' @ [LF]),
       Stdout (''  1: x := 1'' @ [LF])])
   \<and> printFindings example_memory id id [(''foo.go'', Opened (''x := 1'' @ [LF]) None)]
     (Some \<lparr>Runs = [\<lparr>Results = [\<lparr>Message = \<lparr>Text = ''unused variable''\<rparr>,
        Locations = [\<lparr>PhysicalLocation = \<lparr>ArtifactLocation = \<lparr>Uri = ''foo.go''\<rparr>,
           Region = \<lparr>StartLine = 1, StartColumn = 9223372036854775807, EndLine = 1\<rparr>\<rparr>\<rparr>]\<rparr>]\<rparr>]\<rparr>) =
     (Panicked ''runtime error: makeslice: len out of range'',
      [Open ''foo.go'', Close ''foo.go'',
       Stdout (''foo.go:1:9223372036854775807: unused variable'' @ [LF]),
       Stdout (''  1: x := 1'' @ [LF])])"
  by (simp add: eval_rules)

section \<open>Unknown fields and a missing \<^verbatim>\<open>runs\<close> key\<close>




section \<open>The analysis step fails\<close>

text \<open>
  Claim C5.  When the subprocess of the analysis ends with an error (a non-zero exit
  status, or a failure to start), \<^verbatim>\<open>runAnalysis\<close> returns a nil report and an error whose
  message is ``analysis failed: '' followed by the message of the process's error, which
  it wraps; its only effect is the run of the subprocess: the results file is not read,
  so nothing is decoded.  \<^verbatim>\<open>runAnalysis\<close> never returns both a report and an error, nor
  neither.  \<^verbatim>\<open>runMigrationCheck\<close> then returns that error having printed only what it
  prints before the database creation: no finding.
\<close>

theorem runAnalysis_failure:
  assumes "cmd_Run e (analyze_command (path_Join e dbPath ''results.json'') dbPath) = Some err"
  shows "runAnalysis e dbPath =
           ((None, Some (WrapError (''analysis failed: '' @ Error err) err)),
            [Exec (analyze_command (path_Join e dbPath ''results.json'') dbPath)])
       \<and> (\<forall>e' p. (fst (fst (runAnalysis e' p)) = None) = (snd (fst (runAnalysis e' p)) \<noteq> None))
       \<and> (\<forall>dir customBuildCommand.
             os_MkdirTemp e (os_TempDir e) ''cosmos-migration-db'' = Inr dbPath \<longrightarrow>
             cmd_Run e (fst (create_command dir customBuildCommand dbPath)) = None \<longrightarrow>
             runMigrationCheck e dir customBuildCommand =
               (Returned (Some (WrapError (''analysis failed: '' @ Error err) err)),
                [MkdirTemp (os_TempDir e) ''cosmos-migration-db''] @
                snd (create_command dir customBuildCommand dbPath) @
                [Exec (fst (create_command dir customBuildCommand dbPath)),
                 Exec (analyze_command (path_Join e dbPath ''results.json'') dbPath),
                 RemoveAll dbPath]))"
proof (intro conjI allI impI)
  show run: "runAnalysis e dbPath =
           ((None, Some (WrapError (''analysis failed: '' @ Error err) err)),
            [Exec (analyze_command (path_Join e dbPath ''results.json'') dbPath)])"
    using assms by (simp add: runAnalysis_def Let_def)
  show "(fst (fst (runAnalysis e' p)) = None) = (snd (fst (runAnalysis e' p)) \<noteq> None)" for e' p
    by (simp add: runAnalysis_def Let_def split: option.splits sum.splits)
  show "runMigrationCheck e dir customBuildCommand =
               (Returned (Some (WrapError (''analysis failed: '' @ Error err) err)),
                [MkdirTemp (os_TempDir e) ''cosmos-migration-db''] @
                snd (create_command dir customBuildCommand dbPath) @
                [Exec (fst (create_command dir customBuildCommand dbPath)),
                 Exec (analyze_command (path_Join e dbPath ''results.json'') dbPath),
                 RemoveAll dbPath])"
    if "os_MkdirTemp e (os_TempDir e) ''cosmos-migration-db'' = Inr dbPath"
      and "cmd_Run e (fst (create_command dir customBuildCommand dbPath)) = None"
    for dir customBuildCommand
    using that run
    by (cases "create_command dir customBuildCommand dbPath")
       (simp add: runMigrationCheck_def check_body_def)
qed

text \<open>
  The analysis exits with status 2 after a database creation that went well.
\<close>

theorem runAnalysis_failure_witness:
  "runAnalysis
     \<lparr>os_TempDir = ''/tmp'', nextRandom = ''42'', mkdir_error = None,
      cmd_Run = (\<lambda>argv. if ''analyze'' \<in> set argv then Some (ErrorString ''exit status 2'') else None),
      os_ReadFile = (\<lambda>p. Inr ''{}''), json_Unmarshal = (\<lambda>data. Inr \<lparr>Runs = []\<rparr>),
      path_Join = (\<lambda>a b. a @ ''/'' @ b), source_files = [],
      red_Sprint = id, yellow_Sprint = id,
      go_memory = \<lparr>maxAlloc = 2 ^ 48, available = 2 ^ 30\<rparr>, os_RemoveAll = (\<lambda>path. None)\<rparr>
     ''/tmp/cosmos-migration-db42''
   = ((None, Some (WrapError ''analysis failed: exit status 2'' (ErrorString ''exit status 2''))),
      [Exec [''codeql'', ''database'', ''analyze'', ''--format=sarif-latest'',
             ''--output=/tmp/cosmos-migration-db42/results.json'',
             ''/tmp/cosmos-migration-db42'', ''skip-mev/cosmos-52-ql'']])
   \<and> runMigrationCheck
     \<lparr>os_TempDir = ''/tmp'', nextRandom = ''42'', mkdir_error = None,
      cmd_Run = (\<lambda>argv. if ''analyze'' \<in> set argv then Some (ErrorString ''exit status 2'') else None),
      os_ReadFile = (\<lambda>p. Inr ''{}''), json_Unmarshal = (\<lambda>data. Inr \<lparr>Runs = []\<rparr>),
      path_Join = (\<lambda>a b. a @ ''/'' @ b), source_files = [],
      red_Sprint = id, yellow_Sprint = id,
      go_memory = \<lparr>maxAlloc = 2 ^ 48, available = 2 ^ 30\<rparr>, os_RemoveAll = (\<lambda>path. None)\<rparr>
     ''.'' ''''
   = (Returned (Some (WrapError ''analysis failed: exit status 2'' (ErrorString ''exit status 2''))),
      [MkdirTemp ''/tmp'' ''cosmos-migration-db'',
       Stdout (''[codeql database create --language=go --source-root . /tmp/cosmos-migration-db42]'' @ [LF]),
       Exec [''codeql'', ''database'', ''create'', ''--language=go'', ''--source-root'', ''.'',
             ''/tmp/cosmos-migration-db42''],
       Exec [''codeql'', ''database'', ''analyze'', ''--format=sarif-latest'',
             ''--output=/tmp/cosmos-migration-db42/results.json'',
             ''/tmp/cosmos-migration-db42'', ''skip-mev/cosmos-52-ql''],
       RemoveAll ''/tmp/cosmos-migration-db42''])"
  using runAnalysis_failure
    [of "\<lparr>os_TempDir = ''/tmp'', nextRandom = ''42'', mkdir_error = None,
      cmd_Run = (\<lambda>argv. if ''analyze'' \<in> set argv then Some (ErrorString ''exit status 2'') else None),
      os_ReadFile = (\<lambda>p. Inr ''{}''), json_Unmarshal = (\<lambda>data. Inr \<lparr>Runs = []\<rparr>),
      path_Join = (\<lambda>a b. a @ ''/'' @ b), source_files = [],
      red_Sprint = id, yellow_Sprint = id,
      go_memory = \<lparr>maxAlloc = 2 ^ 48, available = 2 ^ 30\<rparr>, os_RemoveAll = (\<lambda>path. None)\<rparr>"
     "''/tmp/cosmos-migration-db42''" "ErrorString ''exit status 2''"]
  by (simp add: analyze_command_def create_command_def os_MkdirTemp_def joinPath_def
      Println_slice_def)

section \<open>The arguments of the database creation\<close>

text \<open>
  Claim C6, as amended.  The argument list that \<^verbatim>\<open>runMigrationCheck\<close> builds, prints and
  runs is \<^verbatim>\<open>codeql database create --language=go --source-root\<close>, the directory, then
  \<^verbatim>\<open>--command\<close> and the custom build command when that string is not empty, then the
  database path, which is the last argument in both cases.  So the list holds
  \<^verbatim>\<open>--command\<close> followed by the custom build command if and only if that command is
  not empty, and the notice naming the command is printed exactly then.  With an empty
  custom build command the list holds a \<^verbatim>\<open>--command\<close> token only when the directory
  argument is itself that string.
\<close>

theorem create_command_arguments:
  assumes "os_MkdirTemp e (os_TempDir e) ''cosmos-migration-db'' = Inr dbPath"
  shows "fst (create_command dir customBuildCommand dbPath) =
           [''codeql'', ''database'', ''create'', ''--language=go'', ''--source-root'', dir] @
           (if customBuildCommand \<noteq> '''' then [''--command'', customBuildCommand] else []) @
           [dbPath]
       \<and> (\<exists>rest. snd (runMigrationCheck e dir customBuildCommand) =
             [MkdirTemp (os_TempDir e) ''cosmos-migration-db''] @
             (if customBuildCommand \<noteq> ''''
              then [Stdout (''Using custom build command: '' @ customBuildCommand @ [LF])] else []) @
             [Stdout (Println_slice (fst (create_command dir customBuildCommand dbPath))),
              Exec (fst (create_command dir customBuildCommand dbPath))] @ rest)
       \<and> ((\<exists>before after. fst (create_command dir customBuildCommand dbPath) =
               before @ [''--command'', customBuildCommand] @ after) = (customBuildCommand \<noteq> ''''))
       \<and> (customBuildCommand = '''' \<longrightarrow>
             (''--command'' \<in> set (fst (create_command dir customBuildCommand dbPath))) =
             (dir = ''--command''))
       \<and> last (fst (create_command dir customBuildCommand dbPath)) = dbPath"
proof (intro conjI impI)
  let ?base = "[''codeql'', ''database'', ''create'', ''--language=go'', ''--source-root'', dir]"
  let ?cmd = "fst (create_command dir customBuildCommand dbPath)"
  note shape = dbPath_shape [OF assms]
  show cmd: "?cmd = ?base @
      (if customBuildCommand \<noteq> '''' then [''--command'', customBuildCommand] else []) @ [dbPath]"
    by (simp add: create_command_eq)
  show "\<exists>rest. snd (runMigrationCheck e dir customBuildCommand) =
             [MkdirTemp (os_TempDir e) ''cosmos-migration-db''] @
             (if customBuildCommand \<noteq> ''''
              then [Stdout (''Using custom build command: '' @ customBuildCommand @ [LF])] else []) @
             [Stdout (Println_slice ?cmd), Exec ?cmd] @ rest"
    using check_body_starts [of e dir customBuildCommand dbPath]
    by (auto simp: runMigrationCheck_events [OF assms] create_command_eq)
  show "(\<exists>before after. ?cmd = before @ [''--command'', customBuildCommand] @ after) =
      (customBuildCommand \<noteq> '''')"
  proof (cases "customBuildCommand = ''''")
    case True
    have "?cmd \<noteq> before @ [''--command'', ''''] @ after" for before after
    proof
      assume "?cmd = before @ [''--command'', ''''] @ after"
      moreover have "length ?cmd = Suc 6"
        using True by (simp add: create_command_eq)
      ultimately have "\<exists>i<6. ?cmd ! i = ''--command'' \<and> ?cmd ! Suc i = ''''"
        by (rule adjacent_nth)
      then obtain i where "i < 6" and "?cmd ! i = ''--command''" and "?cmd ! Suc i = ''''"
        by blast
      moreover from \<open>i < 6\<close> have "i = 0 \<or> i = 1 \<or> i = 2 \<or> i = 3 \<or> i = 4 \<or> i = 5"
        by linarith
      ultimately show False
        using True shape by (auto simp: create_command_eq)
    qed
    then show ?thesis
      using True by simp
  next
    case False
    then have "?cmd = ?base @ [''--command'', customBuildCommand] @ [dbPath]"
      by (simp add: create_command_eq)
    then show ?thesis
      using False by blast
  qed
  show "(''--command'' \<in> set ?cmd) = (dir = ''--command'')" if "customBuildCommand = ''''"
    using that shape by (auto simp: create_command_eq)
  show "last ?cmd = dbPath"
    by (simp add: create_command_eq)
qed

text \<open>The build command ``make build'', and no build command.\<close>

theorem create_command_arguments_witness:
  "fst (create_command ''.'' ''make build'' ''/tmp/cosmos-migration-db42'') =
     [''codeql'', ''database'', ''create'', ''--language=go'', ''--source-root'', ''.'',
      ''--command'', ''make build'', ''/tmp/cosmos-migration-db42'']
   \<and> snd (create_command ''.'' ''make build'' ''/tmp/cosmos-migration-db42'') =
     [Stdout (''Using custom build command: make build'' @ [LF]),
      Stdout (''[codeql database create --language=go --source-root . --command make build /tmp/cosmos-migration-db42]'' @ [LF])]
   \<and> fst (create_command ''.'' '''' ''/tmp/cosmos-migration-db42'') =
     [''codeql'', ''database'', ''create'', ''--language=go'', ''--source-root'', ''.'',
      ''/tmp/cosmos-migration-db42'']
   \<and> ''--command'' \<notin> set (fst (create_command ''.'' '''' ''/tmp/cosmos-migration-db42''))"
  using
    create_command_arguments [of
      "\<lparr>os_TempDir = ''/tmp'', nextRandom = ''42'', mkdir_error = None,
        cmd_Run = (\<lambda>argv. None), os_ReadFile = (\<lambda>p. Inr ''{}''),
        json_Unmarshal = (\<lambda>data. Inr \<lparr>Runs = []\<rparr>),
        path_Join = (\<lambda>a b. a @ ''/'' @ b), source_files = [],
        red_Sprint = id, yellow_Sprint = id,
        go_memory = \<lparr>maxAlloc = 2 ^ 48, available = 2 ^ 30\<rparr>, os_RemoveAll = (\<lambda>path. None)\<rparr>"
      "''/tmp/cosmos-migration-db42''" "''.''" "''make build''"]
    create_command_arguments [of
      "\<lparr>os_TempDir = ''/tmp'', nextRandom = ''42'', mkdir_error = None,
        cmd_Run = (\<lambda>argv. None), os_ReadFile = (\<lambda>p. Inr ''{}''),
        json_Unmarshal = (\<lambda>data. Inr \<lparr>Runs = []\<rparr>),
        path_Join = (\<lambda>a b. a @ ''/'' @ b), source_files = [],
        red_Sprint = id, yellow_Sprint = id,
        go_memory = \<lparr>maxAlloc = 2 ^ 48, available = 2 ^ 30\<rparr>, os_RemoveAll = (\<lambda>path. None)\<rparr>"
      "''/tmp/cosmos-migration-db42''" "''.''" "''''"]
  by (simp add: os_MkdirTemp_def joinPath_def create_command_def Println_slice_def Let_def)

text \<open>
  The claim as it was stated fails for the directory \<^verbatim>\<open>--command\<close>: the custom build
  command is empty and the list holds the token.
\<close>

theorem create_command_counterexample:
  "fst (create_command ''--command'' '''' ''/tmp/cosmos-migration-db42'') =
     [''codeql'', ''database'', ''create'', ''--language=go'', ''--source-root'', ''--command'',
      ''/tmp/cosmos-migration-db42'']
   \<and> ''--command'' \<in> set (fst (create_command ''--command'' '''' ''/tmp/cosmos-migration-db42''))"
  by (simp add: create_command_def Let_def)

section \<open>A read failure ends the rendering\<close>

text \<open>
  Claim C7.  When \<^verbatim>\<open>readSpecificLine\<close> fails for a pair that the rendering reaches (every
  pair before it was rendered: its line was read and its column could be allocated),
  \<^verbatim>\<open>printFindings\<close> returns an error whose message is ``failed to read file: ''
  followed by the message of the read error, which it wraps.  Its effects are the blocks
  of the pairs before and the attempt to read the file: nothing is printed for the
  failing pair, no line is added to the output, and no later location, result or run is
  touched.
\<close>

theorem read_failure_aborts:
  assumes "i < length (pairs report)"
    and "\<forall>p\<in>set (take i (pairs report)). rendered mem fs p"
    and "snd (read_line fs (snd (pairs report ! i))) = Some err"
  shows "printFindings mem red yellow fs (Some report) =
           (Returned (Some (WrapError (''failed to read file: '' @ Error err) err)),
            concat (map (block red yellow fs) (take i (pairs report))) @
            snd (readSpecificLine fs (uri_of (snd (pairs report ! i))) (line_of (snd (pairs report ! i)))))
       \<and> printed (snd (printFindings mem red yellow fs (Some report))) =
           printed (concat (map (block red yellow fs) (take i (pairs report))))
       \<and> stdout_lines (snd (printFindings mem red yellow fs (Some report))) =
           stdout_lines (concat (map (block red yellow fs) (take i (pairs report))))"
proof -
  let ?p = "pairs report ! i"
  have "location_body mem red yellow fs (fst ?p) (snd ?p) =
      (Return (WrapError (''failed to read file: '' @ Error err) err),
       snd (readSpecificLine fs (uri_of (snd ?p)) (line_of (snd ?p))))"
    using assms(3) by (rule location_body_read_fails)
  then have "printFindings mem red yellow fs (Some report) =
      (Returned (Some (WrapError (''failed to read file: '' @ Error err) err)),
       concat (map (block red yellow fs) (take i (pairs report))) @
       snd (readSpecificLine fs (uri_of (snd ?p)) (line_of (snd ?p))))"
    using printFindings_stops [OF assms(1,2), of red yellow] by simp
  then show ?thesis
    by (simp add: printed_append printed_readSpecificLine stdout_lines_def)
qed

text \<open>
  The second of three locations names line 4 of a file of three lines.
\<close>

theorem read_failure_aborts_witness:
  "printFindings example_memory id id example_files
     (Some \<lparr>Runs = [\<lparr>Results = [\<lparr>Message = \<lparr>Text = ''unused variable''\<rparr>,
        Locations = [finding_at ''foo.go'' 3 5, finding_at ''foo.go'' 4 1,
                     finding_at ''foo.go'' 1 0]\<rparr>]\<rparr>]\<rparr>) =
     (Returned (Some (WrapError ''failed to read file: file has less than 4 lines''
                        (ErrorString ''file has less than 4 lines''))),
      [Open ''foo.go'', Close ''foo.go'',
       Stdout (''foo.go:3:5: unused variable'' @ [LF]),
       Stdout (''  3: x := 1'' @ [LF]),
       Stdout (''     ^'' @ [LF]),
       Open ''foo.go'', Close ''foo.go''])"
  using read_failure_aborts [of 1 "\<lparr>Runs = [\<lparr>Results = [\<lparr>Message = \<lparr>Text = ''unused variable''\<rparr>,
        Locations = [finding_at ''foo.go'' 3 5, finding_at ''foo.go'' 4 1,
                     finding_at ''foo.go'' 1 0]\<rparr>]\<rparr>]\<rparr>" example_memory example_files
      "ErrorString ''file has less than 4 lines''" id id]
  by (simp add: eval_rules)

section \<open>The first two lines of a block\<close>



section \<open>The temporary directory\<close>




section \<open>A negative start column\<close>

text \<open>
  Claim C10.  \<^verbatim>\<open>printFindings\<close> does not return on every report: when the rendering
  reaches a pair whose source line is read and whose start column is negative (every
  pair before it was rendered), it prints the first two lines of the pair and then
  panics in \<^verbatim>\<open>strings.Repeat\<close>, which gets the column as its count; no error is
  returned.
\<close>

theorem negative_column_panics:
  assumes "i < length (pairs report)"
    and "\<forall>p\<in>set (take i (pairs report)). rendered mem fs p"
    and "snd (read_line fs (snd (pairs report ! i))) = None"
    and "sint (column_of (snd (pairs report ! i))) < 0"
  shows "printFindings mem red yellow fs (Some report) =
           (Panicked ''strings: negative Repeat count'',
            concat (map (block red yellow fs) (take i (pairs report))) @
            [Open (uri_of (snd (pairs report ! i))), Close (uri_of (snd (pairs report ! i))),
             Stdout (uri_of (snd (pairs report ! i)) @ '':'' @ fmt_d (line_of (snd (pairs report ! i))) @
                     '':'' @ fmt_d (column_of (snd (pairs report ! i))) @ '': '' @
                     red (Text (Message (fst (pairs report ! i)))) @ [LF]),
             Stdout (''  '' @ fmt_d (line_of (snd (pairs report ! i))) @ '': '' @
                     fst (read_line fs (snd (pairs report ! i))) @ [LF])])"
proof -
  let ?p = "pairs report ! i"
  have "location_body mem red yellow fs (fst ?p) (snd ?p) =
      (Panic ''strings: negative Repeat count'', take 4 (block red yellow fs (fst ?p, snd ?p)))"
    using assms(3,4) by (rule location_body_panics)
  then have "printFindings mem red yellow fs (Some report) =
      (Panicked ''strings: negative Repeat count'',
       concat (map (block red yellow fs) (take i (pairs report))) @
       take 4 (block red yellow fs (fst ?p, snd ?p)))"
    using printFindings_stops [OF assms(1,2), of red yellow] by simp
  then show ?thesis
    by (simp add: block_def block_lines_def split_beta)
qed

text \<open>The second of three locations has start column -1.\<close>

theorem negative_column_panics_witness:
  "printFindings example_memory id id example_files
     (Some \<lparr>Runs = [\<lparr>Results = [\<lparr>Message = \<lparr>Text = ''unused variable''\<rparr>,
        Locations = [finding_at ''foo.go'' 3 5, finding_at ''foo.go'' 1 (- 1),
                     finding_at ''foo.go'' 1 0]\<rparr>]\<rparr>]\<rparr>) =
     (Panicked ''strings: negative Repeat count'',
      [Open ''foo.go'', Close ''foo.go'',
       Stdout (''foo.go:3:5: unused variable'' @ [LF]),
       Stdout (''  3: x := 1'' @ [LF]),
       Stdout (''     ^'' @ [LF]),
       Open ''foo.go'', Close ''foo.go'',
       Stdout (''foo.go:1:-1: unused variable'' @ [LF]),
       Stdout (''  1: package main'' @ [LF])])"
  using negative_column_panics [of 1 "\<lparr>Runs = [\<lparr>Results = [\<lparr>Message = \<lparr>Text = ''unused variable''\<rparr>,
        Locations = [finding_at ''foo.go'' 3 5, finding_at ''foo.go'' 1 (- 1),
                     finding_at ''foo.go'' 1 0]\<rparr>]\<rparr>]\<rparr>" example_memory example_files id id]
  by (simp add: eval_rules)

end
